theory Spec2Isabelle
  imports Main "HOL-Library.Word" "HOL-Library.Signed_Division"
begin

section \<open>Machine integers\<close>

text \<open>
  The program computes with the C++ types \<open>int\<close> and \<open>GLuint\<close>, both 32 bits wide.
  Both are 32-bit words here: \<open>+\<close>, \<open>-\<close> and \<open>*\<close> wrap around, \<open>sint\<close> reads a word
  as the signed \<open>int\<close>, \<open>uint\<close> as the unsigned \<open>GLuint\<close>; \<open><s\<close> and \<open>\<le>s\<close> are the
  comparisons of two \<open>int\<close>s, \<open><\<close> and \<open>\<le>\<close> those of two unsigned values. Where C++ compares
  an \<open>int\<close> with a \<open>GLuint\<close> the \<open>int\<close> is converted to unsigned, which keeps its bits: the
  comparison is the unsigned one.
\<close>

type_synonym c_int = "32 word"
type_synonym GLuint = "32 word"

definition INT_MIN :: c_int where
  "INT_MIN = word_of_int (- (2 ^ 31))"

text \<open>
  \<open>a / b\<close> on two \<open>int\<close>s truncates towards zero. Division by zero and \<open>INT_MIN / -1\<close>
  have no defined result.
\<close>

definition int_div :: "c_int \<Rightarrow> c_int \<Rightarrow> c_int option" where
  "int_div a b =
     (if b = 0 \<or> (a = INT_MIN \<and> b = - 1) then None
      else Some (word_of_int (sint a sdiv sint b)))"

section \<open>Snake.h: positions and directions\<close>

text \<open>\<open>struct Position { int x, y; }\<close>; the fields are \<open>pos_x\<close> and \<open>pos_y\<close> here.\<close>

record Position =
  pos_x :: c_int
  pos_y :: c_int

datatype Direction = UP | DOWN | LEFT | RIGHT | STOPPED

text \<open>
  \<open>class Snake\<close>. The \<open>std::deque<Position> body\<close> is a list whose first element is the
  front of the deque.
\<close>

record snake =
  body :: "Position list"
  currentDirection :: Direction
  lastMovedDirection :: Direction
  segmentSize :: c_int
  growNextMove :: bool

definition push_front :: "'a \<Rightarrow> 'a list \<Rightarrow> 'a list" where
  "push_front p d = p # d"

definition pop_back :: "'a list \<Rightarrow> 'a list" where
  "pop_back d = butlast d"

section \<open>Snake.cpp\<close>

text \<open>
  \<open>Snake::Snake(startX, startY, segSize)\<close>: the member initialisers, then three
  \<open>push_front\<close> calls on the empty deque, in the order of the source.
\<close>

definition Snake :: "c_int \<Rightarrow> c_int \<Rightarrow> c_int \<Rightarrow> snake" where
  "Snake startX startY segSize =
     (let s0 = \<lparr>body = [], currentDirection = STOPPED, lastMovedDirection = STOPPED,
                segmentSize = segSize, growNextMove = False\<rparr>;
          s1 = s0\<lparr>body := push_front \<lparr>pos_x = startX, pos_y = startY\<rparr> (body s0)\<rparr>;
          s2 = s1\<lparr>body := push_front \<lparr>pos_x = startX - segmentSize s1, pos_y = startY\<rparr> (body s1)\<rparr>;
          s3 = s2\<lparr>body := push_front \<lparr>pos_x = startX - 2 * segmentSize s2, pos_y = startY\<rparr> (body s2)\<rparr>
      in s3)"

text \<open>The \<open>switch\<close> of \<open>Snake::Move\<close> on the copy \<open>newHead\<close> of the front.\<close>

fun offset_head :: "Direction \<Rightarrow> c_int \<Rightarrow> Position \<Rightarrow> Position" where
  "offset_head UP sz newHead = newHead\<lparr>pos_y := pos_y newHead - sz\<rparr>"
| "offset_head DOWN sz newHead = newHead\<lparr>pos_y := pos_y newHead + sz\<rparr>"
| "offset_head LEFT sz newHead = newHead\<lparr>pos_x := pos_x newHead - sz\<rparr>"
| "offset_head RIGHT sz newHead = newHead\<lparr>pos_x := pos_x newHead + sz\<rparr>"
| "offset_head STOPPED sz newHead = newHead"

text \<open>
  \<open>Snake::Move\<close>. \<open>body.front()\<close> on an empty deque is undefined behaviour: the result is
  \<open>None\<close> there, and \<open>Some\<close> of the snake after the call everywhere else.
\<close>

definition Move :: "snake \<Rightarrow> snake option" where
  "Move s =
     (if currentDirection s = STOPPED then Some s
      else case body s of
        [] \<Rightarrow> None
      | front # _ \<Rightarrow>
          let newHead = offset_head (currentDirection s) (segmentSize s) front;
              s1 = s\<lparr>body := push_front newHead (body s)\<rparr>;
              s2 = (if growNextMove s1 then s1\<lparr>growNextMove := False\<rparr>
                    else s1\<lparr>body := pop_back (body s1)\<rparr>)
          in Some (s2\<lparr>lastMovedDirection := currentDirection s2\<rparr>))"

definition Grow :: "snake \<Rightarrow> snake" where
  "Grow s = s\<lparr>growNextMove := True\<rparr>"

text \<open>The first condition of \<open>Snake::SetDirection\<close>: a request opposite to the last move.\<close>

definition reversal :: "Direction \<Rightarrow> Direction \<Rightarrow> bool" where
  "reversal newDir lastMoved \<longleftrightarrow>
     (newDir = UP \<and> lastMoved = DOWN) \<or>
     (newDir = DOWN \<and> lastMoved = UP) \<or>
     (newDir = LEFT \<and> lastMoved = RIGHT) \<or>
     (newDir = RIGHT \<and> lastMoved = LEFT)"

definition SetDirection :: "Direction \<Rightarrow> snake \<Rightarrow> snake" where
  "SetDirection newDir s =
     (if reversal newDir (lastMovedDirection s) \<and>
         (length (body s) > 1 \<and> lastMovedDirection s \<noteq> STOPPED)
      then s
      else
        let s1 = (if currentDirection s = STOPPED \<and> length (body s) = 1
                  then s\<lparr>lastMovedDirection := STOPPED\<rparr> else s);
            s2 = s1\<lparr>currentDirection := newDir\<rparr>
        in if lastMovedDirection s2 = STOPPED then s2\<lparr>lastMovedDirection := newDir\<rparr> else s2)"

definition GetDirection :: "snake \<Rightarrow> Direction" where
  "GetDirection s = currentDirection s"

definition GetBody :: "snake \<Rightarrow> Position list" where
  "GetBody s = body s"

definition GetSegmentSize :: "snake \<Rightarrow> c_int" where
  "GetSegmentSize s = segmentSize s"

definition GetHeadPosition :: "snake \<Rightarrow> Position" where
  "GetHeadPosition s =
     (if body s = [] then \<lparr>pos_x = - 1, pos_y = - 1\<rparr> else hd (body s))"

text \<open>
  The \<open>for\<close> loop of \<open>Snake::CheckSelfCollision\<close>, from index \<open>i\<close> up to the size of the
  body; it stops at the first segment that equals the head.
\<close>

function collision_from :: "Position list \<Rightarrow> Position \<Rightarrow> nat \<Rightarrow> bool" where
  "collision_from b head i =
     (if i < length b then
        (if pos_x (b ! i) = pos_x head \<and> pos_y (b ! i) = pos_y head then True
         else collision_from b head (i + 1))
      else False)"
  by pat_completeness auto
termination
  by (relation "measure (\<lambda>(b, head, i). length b - i)") auto

declare collision_from.simps [simp del]

definition CheckSelfCollision :: "snake \<Rightarrow> bool" where
  "CheckSelfCollision s =
     (if length (body s) < 2 then False
      else collision_from (body s) (hd (body s)) 1)"

section \<open>Food.h and Food.cpp\<close>

text \<open>
  \<open>class Food\<close>. The member \<open>rng\<close> is a \<open>std::mt19937\<close> seeded from
  \<open>std::random_device\<close>; what the program sees of it are the results of the calls
  \<open>distX(rng)\<close> and \<open>distY(rng)\<close>, one pair in each iteration of the sampling loop. The
  field \<open>rng\<close> is the sequence of these pairs still to come, \<open>rng f 0\<close> the next one.
\<close>

record food =
  pos :: Position
  boardWidth :: c_int
  boardHeight :: c_int
  food_segmentSize :: c_int
  rng :: "nat \<Rightarrow> c_int \<times> c_int"

text \<open>
  \<open>Food::Food\<close> stores the dimensions and seeds the generator; it does not initialise
  \<open>pos\<close>, which holds whatever \<open>uninit\<close> the storage held.
\<close>

definition Food :: "(nat \<Rightarrow> c_int \<times> c_int) \<Rightarrow> Position \<Rightarrow> c_int \<Rightarrow> c_int \<Rightarrow> c_int \<Rightarrow> food" where
  "Food seed uninit bWidth bHeight segSize =
     \<lparr>pos = uninit, boardWidth = bWidth, boardHeight = bHeight,
      food_segmentSize = segSize, rng = seed\<rparr>"

text \<open>
  The contract of \<open>std::uniform_int_distribution<int>(0, b)\<close>: every result lies in
  \<open>[0, b]\<close>. \<open>rng_in_range f\<close> says so of every pair the generator of \<open>f\<close> will give, for
  the bounds \<open>boardWidth / segmentSize - 1\<close> and \<open>boardHeight / segmentSize - 1\<close>.
\<close>

definition dist_bound :: "c_int \<Rightarrow> c_int \<Rightarrow> c_int option" where
  "dist_bound extent segSize =
     (case int_div extent segSize of None \<Rightarrow> None | Some q \<Rightarrow> Some (q - 1))"

definition rng_in_range :: "food \<Rightarrow> bool" where
  "rng_in_range f \<longleftrightarrow>
     (\<exists>bx by. dist_bound (boardWidth f) (food_segmentSize f) = Some bx \<and>
              dist_bound (boardHeight f) (food_segmentSize f) = Some by \<and>
              (\<forall>i. 0 \<le>s fst (rng f i) \<and> fst (rng f i) \<le>s bx \<and>
                   0 \<le>s snd (rng f i) \<and> snd (rng f i) \<le>s by))"

text \<open>
  The \<open>while\<close> loop of \<open>Food::GenerateNewPosition\<close>: draw, scale, look for the candidate in
  the snake with \<open>std::find_if\<close>, stop when it is not found. The loop has no bound; a run
  that never leaves it is \<open>None\<close>.
\<close>

partial_function (option) sample_loop :: "Position list \<Rightarrow> food \<Rightarrow> food option" where
  "sample_loop snakeBody f =
     (let f1 = f\<lparr>pos := \<lparr>pos_x = fst (rng f 0) * food_segmentSize f,
                         pos_y = snd (rng f 0) * food_segmentSize f\<rparr>,
                 rng := (\<lambda>i. rng f (Suc i))\<rparr>;
          it = find (\<lambda>segment. pos_x segment = pos_x (pos f1) \<and> pos_y segment = pos_y (pos f1))
                 snakeBody
      in if it = None then Some f1 else sample_loop snakeBody f1)"

text \<open>
  \<open>Food::GenerateNewPosition\<close>. The two distributions are built first; a division with no
  defined result, or a distribution whose upper bound is below its lower bound \<open>0\<close>, is
  undefined behaviour (\<open>None\<close>).
\<close>

definition GenerateNewPosition :: "Position list \<Rightarrow> food \<Rightarrow> food option" where
  "GenerateNewPosition snakeBody f =
     (case dist_bound (boardWidth f) (food_segmentSize f) of
        None \<Rightarrow> None
      | Some bx \<Rightarrow>
          (case dist_bound (boardHeight f) (food_segmentSize f) of
             None \<Rightarrow> None
           | Some by \<Rightarrow>
               if bx <s 0 \<or> by <s 0 then None else sample_loop snakeBody f))"

definition GetPosition :: "food \<Rightarrow> Position" where
  "GetPosition f = pos f"

section \<open>Game.h and Game.cpp\<close>

datatype GameState = GAME_ACTIVE | GAME_MENU | GAME_WIN | GAME_OVER

text \<open>
  \<open>class Game\<close>, without its OpenGL handles. \<open>PlayerSnake\<close> and \<open>GameFood\<close> are pointers
  that \<open>Init\<close> sets and \<open>ResetGame\<close> replaces; the record holds the objects they point
  to, so it is a \<open>Game\<close> on which \<open>Init\<close> has run. \<open>Keys\<close> is the array of 1024 key
  flags, read at the key codes of \<open>GLFW/glfw3.h\<close> below.
\<close>

record game =
  State :: GameState
  Keys :: "nat \<Rightarrow> bool"
  Width :: GLuint
  Height :: GLuint
  PlayerSnake :: snake
  GameFood :: food

definition GLFW_KEY_A :: nat where "GLFW_KEY_A = 65"
definition GLFW_KEY_D :: nat where "GLFW_KEY_D = 68"
definition GLFW_KEY_R :: nat where "GLFW_KEY_R = 82"
definition GLFW_KEY_S :: nat where "GLFW_KEY_S = 83"
definition GLFW_KEY_W :: nat where "GLFW_KEY_W = 87"
definition GLFW_KEY_RIGHT :: nat where "GLFW_KEY_RIGHT = 262"
definition GLFW_KEY_LEFT :: nat where "GLFW_KEY_LEFT = 263"
definition GLFW_KEY_DOWN :: nat where "GLFW_KEY_DOWN = 264"
definition GLFW_KEY_UP :: nat where "GLFW_KEY_UP = 265"

text \<open>
  What a freshly constructed \<open>Food\<close> takes from outside the program: the draws its
  generator will give, and the content of its uninitialised \<open>pos\<close>.
\<close>

record fresh =
  fresh_seed :: "nat \<Rightarrow> c_int \<times> c_int"
  fresh_pos :: Position

text \<open>
  \<open>Game::Init\<close> and \<open>Game::ResetGame\<close> build the game objects with the same four
  statements: \<open>new Snake(Width / 2, Height / 2)\<close> with the default segment size 20 of
  Snake.h, \<open>new Food(Width, Height, PlayerSnake->GetSegmentSize())\<close>,
  \<open>GameFood->GenerateNewPosition(PlayerSnake->GetBody())\<close> and \<open>State = GAME_ACTIVE\<close>.
  \<open>Width / 2\<close> divides two unsigned values. Before them \<open>Init\<close> sets up the shaders and
  \<open>ResetGame\<close> deletes the old objects and writes to the console, which is left out.
\<close>

definition Init :: "fresh \<Rightarrow> game \<Rightarrow> game option" where
  "Init e g =
     (let g1 = g\<lparr>PlayerSnake := Snake (Width g div 2) (Height g div 2) 20\<rparr>;
          g2 = g1\<lparr>GameFood := Food (fresh_seed e) (fresh_pos e) (Width g1) (Height g1)
                                  (GetSegmentSize (PlayerSnake g1))\<rparr>
      in case GenerateNewPosition (GetBody (PlayerSnake g2)) (GameFood g2) of
           None \<Rightarrow> None
         | Some f \<Rightarrow> Some (g2\<lparr>GameFood := f, State := GAME_ACTIVE\<rparr>))"

definition ResetGame :: "fresh \<Rightarrow> game \<Rightarrow> game option" where
  "ResetGame e g =
     (let g1 = g\<lparr>PlayerSnake := Snake (Width g div 2) (Height g div 2) 20\<rparr>;
          g2 = g1\<lparr>GameFood := Food (fresh_seed e) (fresh_pos e) (Width g1) (Height g1)
                                  (GetSegmentSize (PlayerSnake g1))\<rparr>
      in case GenerateNewPosition (GetBody (PlayerSnake g2)) (GameFood g2) of
           None \<Rightarrow> None
         | Some f \<Rightarrow> Some (g2\<lparr>GameFood := f, State := GAME_ACTIVE\<rparr>))"

text \<open>
  \<open>Game::ProcessInput\<close>: four independent \<open>if\<close>s in the active state, in the order
  up, down, left, right; the restart key in the state \<open>GAME_OVER\<close>.
\<close>

definition ProcessInput :: "fresh \<Rightarrow> game \<Rightarrow> game option" where
  "ProcessInput e g =
     (if State g = GAME_ACTIVE then
        let g1 = (if Keys g GLFW_KEY_W \<or> Keys g GLFW_KEY_UP
                  then g\<lparr>PlayerSnake := SetDirection UP (PlayerSnake g)\<rparr> else g);
            g2 = (if Keys g1 GLFW_KEY_S \<or> Keys g1 GLFW_KEY_DOWN
                  then g1\<lparr>PlayerSnake := SetDirection DOWN (PlayerSnake g1)\<rparr> else g1);
            g3 = (if Keys g2 GLFW_KEY_A \<or> Keys g2 GLFW_KEY_LEFT
                  then g2\<lparr>PlayerSnake := SetDirection LEFT (PlayerSnake g2)\<rparr> else g2);
            g4 = (if Keys g3 GLFW_KEY_D \<or> Keys g3 GLFW_KEY_RIGHT
                  then g3\<lparr>PlayerSnake := SetDirection RIGHT (PlayerSnake g3)\<rparr> else g3)
        in Some g4
      else if State g = GAME_OVER then
        (if Keys g GLFW_KEY_R then ResetGame e g else Some g)
      else Some g)"

text \<open>The wall test of \<open>Game::Update\<close>; the two sums are \<open>int\<close>s compared with a \<open>GLuint\<close>.\<close>

definition hits_wall :: "game \<Rightarrow> bool" where
  "hits_wall g =
     (let head = GetHeadPosition (PlayerSnake g);
          segSize = GetSegmentSize (PlayerSnake g)
      in pos_x head <s 0 \<or> pos_x head + segSize > Width g \<or>
         pos_y head <s 0 \<or> pos_y head + segSize > Height g)"

text \<open>The food test of \<open>Game::Update\<close>, with the growth and the new food it triggers.\<close>

definition eat_food :: "game \<Rightarrow> game option" where
  "eat_food g =
     (if pos_x (GetHeadPosition (PlayerSnake g)) = pos_x (GetPosition (GameFood g)) \<and>
         pos_y (GetHeadPosition (PlayerSnake g)) = pos_y (GetPosition (GameFood g))
      then
        let g1 = g\<lparr>PlayerSnake := Grow (PlayerSnake g)\<rparr>
        in case GenerateNewPosition (GetBody (PlayerSnake g1)) (GameFood g1) of
             None \<Rightarrow> None
           | Some f \<Rightarrow> Some (g1\<lparr>GameFood := f\<rparr>)
      else Some g)"

text \<open>The two collision tests that end \<open>Game::Update\<close>: the snake itself, then the walls.\<close>

definition collision_checks :: "game \<Rightarrow> game" where
  "collision_checks g =
     (let g1 = (if CheckSelfCollision (PlayerSnake g) then g\<lparr>State := GAME_OVER\<rparr> else g);
          g2 = (if hits_wall g1 then g1\<lparr>State := GAME_OVER\<rparr> else g1)
      in g2)"

text \<open>
  \<open>Game::Update\<close>: nothing outside the active state; otherwise the move, the food test
  and the collision tests, in this order.
\<close>

definition Update :: "game \<Rightarrow> game option" where
  "Update g =
     (if State g \<noteq> GAME_ACTIVE then Some g
      else case Move (PlayerSnake g) of
        None \<Rightarrow> None
      | Some s \<Rightarrow>
          (case eat_food (g\<lparr>PlayerSnake := s\<rparr>) of
             None \<Rightarrow> None
           | Some g1 \<Rightarrow> Some (collision_checks g1)))"

section \<open>Call sequences\<close>

text \<open>\<open>Move_n n\<close> is \<open>n\<close> calls of \<open>Move\<close> in a row on one snake.\<close>

fun Move_n :: "nat \<Rightarrow> snake \<Rightarrow> snake option" where
  "Move_n 0 s = Some s"
| "Move_n (Suc n) s = (case Move s of None \<Rightarrow> None | Some s' \<Rightarrow> Move_n n s')"

text \<open>The three mutating members of \<open>Snake\<close>, and a client that calls them one by one.\<close>

datatype snake_call = CallSetDirection Direction | CallGrow | CallMove

fun call :: "snake_call \<Rightarrow> snake \<Rightarrow> snake option" where
  "call (CallSetDirection d) s = Some (SetDirection d s)"
| "call CallGrow s = Some (Grow s)"
| "call CallMove s = Move s"

fun calls :: "snake_call list \<Rightarrow> snake \<Rightarrow> snake option" where
  "calls [] s = Some s"
| "calls (c # cs) s = (case call c s of None \<Rightarrow> None | Some s' \<Rightarrow> calls cs s')"

text \<open>
  The position that the iteration \<open>k\<close> of the sampling loop tries, counted from the next
  draw of \<open>f\<close>.
\<close>

definition candidate :: "food \<Rightarrow> nat \<Rightarrow> Position" where
  "candidate f k = \<lparr>pos_x = fst (rng f k) * food_segmentSize f,
                    pos_y = snd (rng f k) * food_segmentSize f\<rparr>"

text \<open>
  main.cpp: \<open>key_callback\<close> writes the key flags between two frames (the escape key
  closes the window and is left out); a frame calls \<open>ProcessInput\<close>, then \<open>Update\<close>.
\<close>

datatype key_action = GLFW_RELEASE | GLFW_PRESS | GLFW_REPEAT

definition key_callback :: "int \<Rightarrow> key_action \<Rightarrow> game \<Rightarrow> game" where
  "key_callback key action g =
     (if key \<ge> 0 \<and> key < 1024 then
        (if action = GLFW_PRESS then g\<lparr>Keys := (Keys g)(nat key := True)\<rparr>
         else if action = GLFW_RELEASE then g\<lparr>Keys := (Keys g)(nat key := False)\<rparr>
         else g)
      else g)"

datatype game_call = CallKey int key_action | CallProcessInput fresh | CallUpdate

fun game_step :: "game_call \<Rightarrow> game \<Rightarrow> game option" where
  "game_step (CallKey key action) g = Some (key_callback key action g)"
| "game_step (CallProcessInput e) g = ProcessInput e g"
| "game_step CallUpdate g = Update g"

fun game_steps :: "game_call list \<Rightarrow> game \<Rightarrow> game option" where
  "game_steps [] g = Some g"
| "game_steps (c # cs) g =
     (case game_step c g of None \<Rightarrow> None | Some g' \<Rightarrow> game_steps cs g')"

section \<open>Example states\<close>

text \<open>
  Concrete states on the board of main.cpp, 800 by 600 with segments of 20. A snake
  heading left with its head at the left wall, and the game after its next update:
\<close>

abbreviation game_at_left_wall :: game where
  "game_at_left_wall \<equiv> \<lparr>State = GAME_ACTIVE, Keys = (\<lambda>k. False), Width = 800, Height = 600,
        PlayerSnake = \<lparr>body = [\<lparr>pos_x = 0, pos_y = 300\<rparr>, \<lparr>pos_x = 20, pos_y = 300\<rparr>,
                               \<lparr>pos_x = 40, pos_y = 300\<rparr>],
                       currentDirection = LEFT, lastMovedDirection = LEFT, segmentSize = 20,
                       growNextMove = False\<rparr>,
        GameFood = \<lparr>pos = \<lparr>pos_x = 100, pos_y = 140\<rparr>, boardWidth = 800, boardHeight = 600,
                    food_segmentSize = 20, rng = (\<lambda>i. (5, 7))\<rparr>\<rparr>"

abbreviation game_over_at_wall :: game where
  "game_over_at_wall \<equiv> \<lparr>State = GAME_OVER, Keys = (\<lambda>k. False), Width = 800, Height = 600,
        PlayerSnake = \<lparr>body = [\<lparr>pos_x = - 20, pos_y = 300\<rparr>, \<lparr>pos_x = 0, pos_y = 300\<rparr>,
                               \<lparr>pos_x = 20, pos_y = 300\<rparr>],
                       currentDirection = LEFT, lastMovedDirection = LEFT, segmentSize = 20,
                       growNextMove = False\<rparr>,
        GameFood = \<lparr>pos = \<lparr>pos_x = 100, pos_y = 140\<rparr>, boardWidth = 800, boardHeight = 600,
                    food_segmentSize = 20, rng = (\<lambda>i. (5, 7))\<rparr>\<rparr>"

text \<open>The same game over, with the restart key held down.\<close>

abbreviation game_over_restart_key :: game where
  "game_over_restart_key \<equiv> \<lparr>State = GAME_OVER, Keys = (\<lambda>k. k = 82), Width = 800, Height = 600,
        PlayerSnake = \<lparr>body = [\<lparr>pos_x = - 20, pos_y = 300\<rparr>, \<lparr>pos_x = 0, pos_y = 300\<rparr>,
                               \<lparr>pos_x = 20, pos_y = 300\<rparr>],
                       currentDirection = LEFT, lastMovedDirection = LEFT, segmentSize = 20,
                       growNextMove = False\<rparr>,
        GameFood = \<lparr>pos = \<lparr>pos_x = 100, pos_y = 140\<rparr>, boardWidth = 800, boardHeight = 600,
                    food_segmentSize = 20, rng = (\<lambda>i. (5, 7))\<rparr>\<rparr>"

text \<open>
  A snake heading right one step before the food; its generator draws the cell of the
  food first, then the cell \<open>(5, 7)\<close>. \<open>snake_on_food\<close> is the snake after the step.
\<close>

abbreviation game_before_food :: game where
  "game_before_food \<equiv> \<lparr>State = GAME_ACTIVE, Keys = (\<lambda>k. False), Width = 800, Height = 600,
        PlayerSnake = \<lparr>body = [\<lparr>pos_x = 380, pos_y = 300\<rparr>, \<lparr>pos_x = 360, pos_y = 300\<rparr>,
                               \<lparr>pos_x = 340, pos_y = 300\<rparr>],
                       currentDirection = RIGHT, lastMovedDirection = RIGHT, segmentSize = 20,
                       growNextMove = False\<rparr>,
        GameFood = \<lparr>pos = \<lparr>pos_x = 400, pos_y = 300\<rparr>, boardWidth = 800, boardHeight = 600,
                    food_segmentSize = 20, rng = (\<lambda>i. if i = 0 then (20, 15) else (5, 7))\<rparr>\<rparr>"

abbreviation snake_on_food :: snake where
  "snake_on_food \<equiv> \<lparr>body = [\<lparr>pos_x = 400, pos_y = 300\<rparr>, \<lparr>pos_x = 380, pos_y = 300\<rparr>,
                               \<lparr>pos_x = 360, pos_y = 300\<rparr>],
                       currentDirection = RIGHT, lastMovedDirection = RIGHT, segmentSize = 20,
                       growNextMove = False\<rparr>"

text \<open>A snake heading right with the food under its head.\<close>

abbreviation game_food_under_head :: game where
  "game_food_under_head \<equiv> \<lparr>State = GAME_ACTIVE, Keys = (\<lambda>k. False), Width = 800, Height = 600,
        PlayerSnake = \<lparr>body = [\<lparr>pos_x = 400, pos_y = 300\<rparr>, \<lparr>pos_x = 380, pos_y = 300\<rparr>,
                               \<lparr>pos_x = 360, pos_y = 300\<rparr>],
                       currentDirection = RIGHT, lastMovedDirection = RIGHT, segmentSize = 20,
                       growNextMove = False\<rparr>,
        GameFood = \<lparr>pos = \<lparr>pos_x = 400, pos_y = 300\<rparr>, boardWidth = 800, boardHeight = 600,
                    food_segmentSize = 20, rng = (\<lambda>i. (5, 7))\<rparr>\<rparr>"

text \<open>
  A fresh generator that draws the cell \<open>(18, 15)\<close>, which is \<open>(360, 300)\<close>, and then the
  cell \<open>(5, 7)\<close>, which is \<open>(100, 140)\<close>.
\<close>

abbreviation fresh_example :: fresh where
  "fresh_example \<equiv> \<lparr>fresh_seed = (\<lambda>i. if i = 0 then (18, 15) else (5, 7)),
        fresh_pos = \<lparr>pos_x = 0, pos_y = 0\<rparr>\<rparr>"

text \<open>
  Snakes: one that has moved right from where \<open>snake_on_food\<close> is, one whose head is on
  its third segment, one of a single segment, and one with no body at all.
\<close>

abbreviation snake_moved_right :: snake where
  "snake_moved_right \<equiv>
     \<lparr>body = [\<lparr>pos_x = 420, pos_y = 300\<rparr>, \<lparr>pos_x = 400, pos_y = 300\<rparr>, \<lparr>pos_x = 380, pos_y = 300\<rparr>],
      currentDirection = RIGHT, lastMovedDirection = RIGHT, segmentSize = 20,
      growNextMove = False\<rparr>"

abbreviation snake_on_itself :: snake where
  "snake_on_itself \<equiv>
     \<lparr>body = [\<lparr>pos_x = 380, pos_y = 300\<rparr>, \<lparr>pos_x = 360, pos_y = 300\<rparr>, \<lparr>pos_x = 380, pos_y = 300\<rparr>],
      currentDirection = RIGHT, lastMovedDirection = RIGHT, segmentSize = 20,
      growNextMove = False\<rparr>"

abbreviation snake_of_one :: snake where
  "snake_of_one \<equiv>
     \<lparr>body = [\<lparr>pos_x = 380, pos_y = 300\<rparr>],
      currentDirection = RIGHT, lastMovedDirection = RIGHT, segmentSize = 20,
      growNextMove = False\<rparr>"

abbreviation snake_without_body :: snake where
  "snake_without_body \<equiv>
     \<lparr>body = [], currentDirection = STOPPED, lastMovedDirection = STOPPED,
      segmentSize = 20, growNextMove = False\<rparr>"

text \<open>The food that \<open>fresh_example\<close> seeds, before its first position is generated.\<close>

abbreviation food_example :: food where
  "food_example \<equiv>
     Food (\<lambda>i. if i = 0 then (18, 15) else (5, 7)) \<lparr>pos_x = 0, pos_y = 0\<rparr> 800 600 20"

section \<open>The snake\<close>

lemma Position_eq_iff: "pos_x p = pos_x q \<and> pos_y p = pos_y q \<longleftrightarrow> p = (q::Position)"
  by auto

lemma Snake_fields:
  "body (Snake a b c) =
     [\<lparr>pos_x = a - 2 * c, pos_y = b\<rparr>, \<lparr>pos_x = a - c, pos_y = b\<rparr>, \<lparr>pos_x = a, pos_y = b\<rparr>]"
  "currentDirection (Snake a b c) = STOPPED"
  "lastMovedDirection (Snake a b c) = STOPPED"
  "segmentSize (Snake a b c) = c"
  "growNextMove (Snake a b c) = False"
  by (simp_all add: Snake_def push_front_def)

text \<open>
  C1. The constructor is documented to put the head, the front of the body, at
  \<open>(startX, startY)\<close> with the two other segments to its left. It inserts all three
  segments at the front, so the segment at \<open>(startX, startY)\<close> ends up at the back: the
  snake built at \<open>(400, 300)\<close> with segment size 20 has the body, front to back,
  \<open>[(360,300), (380,300), (400,300)]\<close>, and its head is at \<open>(360, 300)\<close>, not at
  \<open>(400, 300)\<close>. The length, the alignment, the spacing, the two directions and the
  growth flag are as documented.
\<close>

theorem Snake_400_300_20:
  "body (Snake 400 300 20) =
     [\<lparr>pos_x = 360, pos_y = 300\<rparr>, \<lparr>pos_x = 380, pos_y = 300\<rparr>, \<lparr>pos_x = 400, pos_y = 300\<rparr>] \<and>
   GetHeadPosition (Snake 400 300 20) = \<lparr>pos_x = 360, pos_y = 300\<rparr> \<and>
   GetHeadPosition (Snake 400 300 20) \<noteq> \<lparr>pos_x = 400, pos_y = 300\<rparr> \<and>
   last (body (Snake 400 300 20)) = \<lparr>pos_x = 400, pos_y = 300\<rparr> \<and>
   length (body (Snake 400 300 20)) = 3 \<and>
   currentDirection (Snake 400 300 20) = STOPPED \<and>
   lastMovedDirection (Snake 400 300 20) = STOPPED \<and>
   growNextMove (Snake 400 300 20) = False"
  by (simp add: Snake_fields GetHeadPosition_def)

text \<open>
  What the misplaced head does to the game: a first move to the right steps onto the
  snake's own second segment.
\<close>

lemma Snake_first_move_right_collides:
  "\<exists>s. Move (SetDirection RIGHT (Snake 400 300 20)) = Some s \<and>
       body s = [\<lparr>pos_x = 380, pos_y = 300\<rparr>, \<lparr>pos_x = 360, pos_y = 300\<rparr>, \<lparr>pos_x = 380, pos_y = 300\<rparr>] \<and>
       CheckSelfCollision s"
  by (simp add: Move_def SetDirection_def reversal_def Snake_fields push_front_def pop_back_def
      CheckSelfCollision_def collision_from.simps)

subsection \<open>SetDirection\<close>

lemma SetDirection_rejected:
  "reversal r (lastMovedDirection s) \<Longrightarrow> 1 < length (body s) \<Longrightarrow>
   lastMovedDirection s \<noteq> STOPPED \<Longrightarrow> SetDirection r s = s"
  by (simp add: SetDirection_def)

lemma SetDirection_accepted:
  assumes "\<not> (reversal r (lastMovedDirection s) \<and> 1 < length (body s) \<and>
              lastMovedDirection s \<noteq> STOPPED)"
  shows "currentDirection (SetDirection r s) = r"
    and "body (SetDirection r s) = body s"
    and "segmentSize (SetDirection r s) = segmentSize s"
    and "growNextMove (SetDirection r s) = growNextMove s"
    and "lastMovedDirection s = STOPPED \<Longrightarrow> lastMovedDirection (SetDirection r s) = r"
  using assms by (auto simp: SetDirection_def Let_def)

text \<open>
  C3, as amended. When the requested direction is the exact opposite of
  \<open>lastMovedDirection\<close>, the body has more than one segment and \<open>lastMovedDirection\<close> is
  not \<open>STOPPED\<close>, \<open>SetDirection\<close> changes nothing. In every other case it sets
  \<open>currentDirection\<close> to the requested direction, and when \<open>lastMovedDirection\<close> was
  \<open>STOPPED\<close> it sets \<open>lastMovedDirection\<close> to it as well. So \<open>currentDirection\<close> keeps
  its value exactly when the request is rejected or asks for the direction that is
  already current.
\<close>

theorem SetDirection_spec:
  "(reversal r (lastMovedDirection s) \<and> 1 < length (body s) \<and> lastMovedDirection s \<noteq> STOPPED
      \<longrightarrow> SetDirection r s = s) \<and>
   (\<not> (reversal r (lastMovedDirection s) \<and> 1 < length (body s) \<and> lastMovedDirection s \<noteq> STOPPED)
      \<longrightarrow> currentDirection (SetDirection r s) = r \<and>
          body (SetDirection r s) = body s \<and>
          segmentSize (SetDirection r s) = segmentSize s \<and>
          growNextMove (SetDirection r s) = growNextMove s \<and>
          (lastMovedDirection s = STOPPED \<longrightarrow> lastMovedDirection (SetDirection r s) = r)) \<and>
   (currentDirection (SetDirection r s) = currentDirection s \<longleftrightarrow>
      (reversal r (lastMovedDirection s) \<and> 1 < length (body s) \<and> lastMovedDirection s \<noteq> STOPPED)
      \<or> r = currentDirection s)"
proof (cases "reversal r (lastMovedDirection s) \<and> 1 < length (body s) \<and>
              lastMovedDirection s \<noteq> STOPPED")
  case True
  then have "SetDirection r s = s"
    by (simp add: SetDirection_rejected)
  with True show ?thesis by simp
next
  case False
  note acc = SetDirection_accepted [OF False]
  have "currentDirection (SetDirection r s) = currentDirection s \<longleftrightarrow> r = currentDirection s"
    unfolding acc(1) ..
  with False acc show ?thesis by blast
qed

text \<open>
  A snake that moved right rejects \<open>LEFT\<close> and accepts \<open>UP\<close>; a fresh snake, whose
  \<open>lastMovedDirection\<close> is \<open>STOPPED\<close>, accepts \<open>LEFT\<close> and records it in both fields.
\<close>

theorem SetDirection_spec_witness:
  "reversal LEFT RIGHT \<and>
   SetDirection LEFT snake_moved_right = snake_moved_right \<and>
   \<not> reversal UP RIGHT \<and>
   currentDirection (SetDirection UP snake_moved_right) = UP \<and>
   lastMovedDirection (Snake 400 300 20) = STOPPED \<and>
   currentDirection (SetDirection LEFT (Snake 400 300 20)) = LEFT \<and>
   lastMovedDirection (SetDirection LEFT (Snake 400 300 20)) = LEFT"
  using SetDirection_spec [of LEFT snake_moved_right]
    SetDirection_spec [of UP snake_moved_right]
    SetDirection_spec [of LEFT "Snake 400 300 20"]
  by (simp add: reversal_def Snake_fields)

text \<open>
  The claim as stated fails: asking a snake that already heads up for \<open>UP\<close> again is not
  a reversal, yet \<open>currentDirection\<close> is left as it was.
\<close>

theorem SetDirection_unchanged_counterexample:
  "currentDirection (SetDirection UP (SetDirection UP (Snake 400 300 20)))
     = currentDirection (SetDirection UP (Snake 400 300 20)) \<and>
   \<not> (reversal UP (lastMovedDirection (SetDirection UP (Snake 400 300 20))) \<and>
      1 < length (body (SetDirection UP (Snake 400 300 20))) \<and>
      lastMovedDirection (SetDirection UP (Snake 400 300 20)) \<noteq> STOPPED)"
  by (simp add: SetDirection_def Snake_fields reversal_def)

subsection \<open>Move\<close>

lemma Move_stopped: "currentDirection s = STOPPED \<Longrightarrow> Move s = Some s"
  by (simp add: Move_def)

lemma Move_moving:
  assumes "currentDirection s \<noteq> STOPPED" and "body s \<noteq> []"
  shows "Move s = Some
           (s\<lparr>body := offset_head (currentDirection s) (segmentSize s) (hd (body s)) #
                       (if growNextMove s then body s else butlast (body s)),
              growNextMove := False,
              lastMovedDirection := currentDirection s\<rparr>)"
  using assms by (cases "body s") (auto simp: Move_def push_front_def pop_back_def Let_def)

lemma offset_head_coords:
  "pos_x (offset_head d sz p) =
     (if d = LEFT then pos_x p - sz else if d = RIGHT then pos_x p + sz else pos_x p)"
  "pos_y (offset_head d sz p) =
     (if d = UP then pos_y p - sz else if d = DOWN then pos_y p + sz else pos_y p)"
  by (cases d; simp)+

lemma Move_n_Suc_right:
  "Move_n (Suc n) s = (case Move_n n s of None \<Rightarrow> None | Some s' \<Rightarrow> Move s')"
proof (induction n arbitrary: s)
  case 0
  show ?case by (simp split: option.splits)
next
  case (Suc n)
  show ?case
  proof (cases "Move s")
    case None
    then show ?thesis by simp
  next
    case (Some s')
    then have "Move_n (Suc (Suc n)) s = Move_n (Suc n) s'" by simp
    also have "\<dots> = (case Move_n n s' of None \<Rightarrow> None | Some t \<Rightarrow> Move t)"
      by (rule Suc.IH)
    also have "Move_n n s' = Move_n (Suc n) s" using Some by simp
    finally show ?thesis .
  qed
qed

lemma Move_n_fixed:
  assumes "currentDirection s \<noteq> STOPPED" and "body s \<noteq> []" and "\<not> growNextMove s"
  shows "\<exists>s'. Move_n n s = Some s' \<and> length (body s') = length (body s) \<and>
              currentDirection s' = currentDirection s \<and> \<not> growNextMove s' \<and>
              segmentSize s' = segmentSize s \<and> body s' \<noteq> []"
  using assms
proof (induction n)
  case 0
  then show ?case by simp
next
  case (Suc n)
  from Suc.IH [OF Suc.prems] obtain s' where s':
    "Move_n n s = Some s'" "length (body s') = length (body s)"
    "currentDirection s' = currentDirection s" "\<not> growNextMove s'"
    "segmentSize s' = segmentSize s" "body s' \<noteq> []"
    by blast
  have "currentDirection s' \<noteq> STOPPED" using s'(3) Suc.prems(1) by simp
  moreover have "length (butlast (body s')) + 1 = length (body s')" using s'(6) by simp
  ultimately show ?case using Move_moving [of s'] s'
    by (simp add: Move_n_Suc_right del: Move_n.simps)
qed

text \<open>
  C4. \<open>Move\<close> does nothing when \<open>currentDirection\<close> is \<open>STOPPED\<close>. Otherwise, on a snake
  with a body, it puts in front of the body the old front moved by one \<open>segmentSize\<close> in
  \<open>currentDirection\<close> (up and left subtract, down and right add); it keeps the whole old
  body behind it and clears \<open>growNextMove\<close> when the flag was set (one segment more),
  and drops the last segment when it was not (same length); \<open>lastMovedDirection\<close> becomes
  \<open>currentDirection\<close>. Hence with no growth pending, any number \<open>n\<close> of calls in a row
  keeps the length, and the head after call \<open>n + 1\<close> is the head after call \<open>n\<close> moved by
  one \<open>segmentSize\<close> along the axis of the direction. The coordinates are 32-bit \<open>int\<close>s.
\<close>

theorem Move_spec:
  "(currentDirection s = STOPPED \<longrightarrow> Move s = Some s) \<and>
   (currentDirection s \<noteq> STOPPED \<and> body s \<noteq> [] \<longrightarrow>
      (\<exists>s'. Move s = Some s' \<and>
         body s' = (body s' ! 0) # (if growNextMove s then body s else butlast (body s)) \<and>
         pos_x (body s' ! 0) =
           (if currentDirection s = LEFT then pos_x (body s ! 0) - segmentSize s
            else if currentDirection s = RIGHT then pos_x (body s ! 0) + segmentSize s
            else pos_x (body s ! 0)) \<and>
         pos_y (body s' ! 0) =
           (if currentDirection s = UP then pos_y (body s ! 0) - segmentSize s
            else if currentDirection s = DOWN then pos_y (body s ! 0) + segmentSize s
            else pos_y (body s ! 0)) \<and>
         length (body s') = (if growNextMove s then length (body s) + 1 else length (body s)) \<and>
         growNextMove s' = False \<and>
         lastMovedDirection s' = currentDirection s \<and>
         currentDirection s' = currentDirection s \<and>
         segmentSize s' = segmentSize s)) \<and>
   (currentDirection s \<noteq> STOPPED \<and> body s \<noteq> [] \<and> \<not> growNextMove s \<longrightarrow>
      (\<exists>s1 s2. Move_n n s = Some s1 \<and> Move_n (Suc n) s = Some s2 \<and>
         length (body s1) = length (body s) \<and> length (body s2) = length (body s) \<and>
         currentDirection s1 = currentDirection s \<and>
         pos_x (body s2 ! 0) =
           (if currentDirection s = LEFT then pos_x (body s1 ! 0) - segmentSize s
            else if currentDirection s = RIGHT then pos_x (body s1 ! 0) + segmentSize s
            else pos_x (body s1 ! 0)) \<and>
         pos_y (body s2 ! 0) =
           (if currentDirection s = UP then pos_y (body s1 ! 0) - segmentSize s
            else if currentDirection s = DOWN then pos_y (body s1 ! 0) + segmentSize s
            else pos_y (body s1 ! 0))))"
proof (intro conjI impI)
  assume "currentDirection s = STOPPED"
  then show "Move s = Some s" by (rule Move_stopped)
next
  assume a: "currentDirection s \<noteq> STOPPED \<and> body s \<noteq> []"
  then have m: "Move s = Some
           (s\<lparr>body := offset_head (currentDirection s) (segmentSize s) (hd (body s)) #
                       (if growNextMove s then body s else butlast (body s)),
              growNextMove := False,
              lastMovedDirection := currentDirection s\<rparr>)"
    by (simp add: Move_moving)
  from a have h: "hd (body s) = body s ! 0" by (simp add: hd_conv_nth)
  from a have l: "length (butlast (body s)) + 1 = length (body s)" by simp
  show "\<exists>s'. Move s = Some s' \<and>
         body s' = (body s' ! 0) # (if growNextMove s then body s else butlast (body s)) \<and>
         pos_x (body s' ! 0) =
           (if currentDirection s = LEFT then pos_x (body s ! 0) - segmentSize s
            else if currentDirection s = RIGHT then pos_x (body s ! 0) + segmentSize s
            else pos_x (body s ! 0)) \<and>
         pos_y (body s' ! 0) =
           (if currentDirection s = UP then pos_y (body s ! 0) - segmentSize s
            else if currentDirection s = DOWN then pos_y (body s ! 0) + segmentSize s
            else pos_y (body s ! 0)) \<and>
         length (body s') = (if growNextMove s then length (body s) + 1 else length (body s)) \<and>
         growNextMove s' = False \<and>
         lastMovedDirection s' = currentDirection s \<and>
         currentDirection s' = currentDirection s \<and>
         segmentSize s' = segmentSize s"
    using l by (simp add: m h offset_head_coords)
next
  assume a: "currentDirection s \<noteq> STOPPED \<and> body s \<noteq> [] \<and> \<not> growNextMove s"
  then obtain s1 where s1: "Move_n n s = Some s1" "length (body s1) = length (body s)"
      "currentDirection s1 = currentDirection s" "\<not> growNextMove s1"
      "segmentSize s1 = segmentSize s" "body s1 \<noteq> []"
    using Move_n_fixed [of s n] by blast
  have ne: "currentDirection s1 \<noteq> STOPPED" using s1(3) a by simp
  have l: "length (butlast (body s1)) + 1 = length (body s1)" using s1(6) by simp
  have "Move_n (Suc n) s = Move s1"
    by (simp add: Move_n_Suc_right s1(1) del: Move_n.simps)
  with Move_moving [OF ne s1(6)] s1 l
  show "\<exists>s1 s2. Move_n n s = Some s1 \<and> Move_n (Suc n) s = Some s2 \<and>
         length (body s1) = length (body s) \<and> length (body s2) = length (body s) \<and>
         currentDirection s1 = currentDirection s \<and>
         pos_x (body s2 ! 0) =
           (if currentDirection s = LEFT then pos_x (body s1 ! 0) - segmentSize s
            else if currentDirection s = RIGHT then pos_x (body s1 ! 0) + segmentSize s
            else pos_x (body s1 ! 0)) \<and>
         pos_y (body s2 ! 0) =
           (if currentDirection s = UP then pos_y (body s1 ! 0) - segmentSize s
            else if currentDirection s = DOWN then pos_y (body s1 ! 0) + segmentSize s
            else pos_y (body s1 ! 0))"
    by (simp add: hd_conv_nth offset_head_coords del: Move_n.simps)
qed

text \<open>
  A fresh snake does not move. Turned up, it moves its head from \<open>(360, 300)\<close> to
  \<open>(360, 280)\<close> and drops its last segment; with growth pending it keeps it; after two
  moves the head is at \<open>(360, 260)\<close> and the length is still 3.
\<close>

theorem Move_spec_witness:
  "Move (Snake 400 300 20) = Some (Snake 400 300 20) \<and>
   currentDirection (SetDirection UP (Snake 400 300 20)) \<noteq> STOPPED \<and>
   body (SetDirection UP (Snake 400 300 20)) \<noteq> [] \<and>
   \<not> growNextMove (SetDirection UP (Snake 400 300 20)) \<and>
   map_option body (Move (SetDirection UP (Snake 400 300 20))) =
     Some [\<lparr>pos_x = 360, pos_y = 280\<rparr>, \<lparr>pos_x = 360, pos_y = 300\<rparr>, \<lparr>pos_x = 380, pos_y = 300\<rparr>] \<and>
   map_option body (Move (Grow (SetDirection UP (Snake 400 300 20)))) =
     Some [\<lparr>pos_x = 360, pos_y = 280\<rparr>, \<lparr>pos_x = 360, pos_y = 300\<rparr>, \<lparr>pos_x = 380, pos_y = 300\<rparr>,
           \<lparr>pos_x = 400, pos_y = 300\<rparr>] \<and>
   map_option body (Move_n 2 (SetDirection UP (Snake 400 300 20))) =
     Some [\<lparr>pos_x = 360, pos_y = 260\<rparr>, \<lparr>pos_x = 360, pos_y = 280\<rparr>, \<lparr>pos_x = 360, pos_y = 300\<rparr>]"
  using Move_spec [of "Snake 400 300 20" 0]
    Move_spec [of "SetDirection UP (Snake 400 300 20)" 1]
    Move_spec [of "Grow (SetDirection UP (Snake 400 300 20))" 0]
  by (simp add: Move_def SetDirection_def Grow_def reversal_def Snake_fields push_front_def
      pop_back_def numeral_2_eq_2)

subsection \<open>CheckSelfCollision\<close>

lemma collision_from_iff:
  "collision_from b h i \<longleftrightarrow> (\<exists>j. i \<le> j \<and> j < length b \<and> b ! j = h)"
proof (induction b h i rule: collision_from.induct)
  case (1 b head i)
  show ?case
  proof (cases "i < length b")
    case False
    then show ?thesis using collision_from.simps [of b head i] by auto
  next
    case True
    show ?thesis
    proof (cases "b ! i = head")
      case True
      with \<open>i < length b\<close> show ?thesis using collision_from.simps [of b head i] by auto
    next
      case False
      then have ne: "\<not> (pos_x (b ! i) = pos_x head \<and> pos_y (b ! i) = pos_y head)"
        by (simp add: Position_eq_iff)
      have "collision_from b head i = collision_from b head (i + 1)"
        using True ne collision_from.simps [of b head i] by auto
      also have "\<dots> \<longleftrightarrow> (\<exists>j. i + 1 \<le> j \<and> j < length b \<and> b ! j = head)"
        using 1 True ne by simp
      also have "\<dots> \<longleftrightarrow> (\<exists>j. i \<le> j \<and> j < length b \<and> b ! j = head)"
        using False by (metis Suc_eq_plus1 Suc_leD Suc_leI le_neq_implies_less)
      finally show ?thesis .
    qed
  qed
qed

text \<open>
  C7. \<open>CheckSelfCollision\<close> is false on a body of fewer than two segments; on a longer
  body it is true exactly when some segment at an index of at least 1 is at the position
  of the head, the segment at index 0.
\<close>

theorem CheckSelfCollision_iff:
  "CheckSelfCollision s \<longleftrightarrow>
     2 \<le> length (body s) \<and> (\<exists>i. 1 \<le> i \<and> i < length (body s) \<and> body s ! i = body s ! 0)"
  by (cases "body s") (auto simp: CheckSelfCollision_def collision_from_iff)

text \<open>
  A head on the third segment collides; the fresh snake and a snake of one segment do
  not.
\<close>

theorem CheckSelfCollision_iff_witness:
  "CheckSelfCollision snake_on_itself \<and>
   \<not> CheckSelfCollision (Snake 400 300 20) \<and>
   \<not> CheckSelfCollision snake_of_one"
  using CheckSelfCollision_iff [of snake_on_itself]
    CheckSelfCollision_iff [of "Snake 400 300 20"]
    CheckSelfCollision_iff [of snake_of_one]
  by (simp add: CheckSelfCollision_def collision_from.simps Snake_fields)

subsection \<open>GetHeadPosition\<close>

text \<open>
  C8, as amended. On an empty body \<open>GetHeadPosition\<close> returns the position \<open>(-1, -1)\<close>, a
  value of the same type as every other result, with both coordinates negative; on a
  body that is not empty it returns the segment at index 0.
\<close>

theorem GetHeadPosition_spec:
  "(body s = [] \<longrightarrow> GetHeadPosition s = \<lparr>pos_x = - 1, pos_y = - 1\<rparr> \<and>
        sint (pos_x (GetHeadPosition s)) = - 1 \<and> sint (pos_y (GetHeadPosition s)) = - 1) \<and>
   (body s \<noteq> [] \<longrightarrow> GetHeadPosition s = body s ! 0)"
  by (cases "body s") (simp_all add: GetHeadPosition_def)

theorem GetHeadPosition_spec_witness:
  "GetHeadPosition snake_without_body = \<lparr>pos_x = - 1, pos_y = - 1\<rparr> \<and>
   body (Snake 400 300 20) \<noteq> [] \<and>
   GetHeadPosition (Snake 400 300 20) = \<lparr>pos_x = 360, pos_y = 300\<rparr>"
  using GetHeadPosition_spec [of snake_without_body]
    GetHeadPosition_spec [of "Snake 400 300 20"]
  by (simp add: Snake_fields)

text \<open>
  The claim as stated fails: the result on an empty body is no distinguished failure. It
  is the very position that the snake built by \<open>Snake(1, -1, 1)\<close>, whose head is at
  \<open>(-1, -1)\<close>, reports as its head.
\<close>

theorem GetHeadPosition_sentinel_counterexample:
  "body snake_without_body = [] \<and>
   body (Snake 1 (- 1) 1) \<noteq> [] \<and>
   GetHeadPosition snake_without_body = GetHeadPosition (Snake 1 (- 1) 1)"
  by (simp add: GetHeadPosition_def Snake_fields)

subsection \<open>The length of the body\<close>

lemma call_length:
  assumes "body s \<noteq> []"
  shows "\<exists>s'. call c s = Some s' \<and> length (body s) \<le> length (body s') \<and>
              length (body s') \<le> length (body s) + 1 \<and>
              (c \<noteq> CallMove \<longrightarrow> length (body s') = length (body s))"
proof (cases c)
  case (CallSetDirection d)
  then show ?thesis by (simp add: SetDirection_def Let_def)
next
  case CallGrow
  then show ?thesis by (simp add: Grow_def)
next
  case CallMove
  show ?thesis
  proof (cases "currentDirection s = STOPPED")
    case True
    with CallMove show ?thesis by (simp add: Move_stopped)
  next
    case False
    have "length (butlast (body s)) + 1 = length (body s)" using assms by simp
    with CallMove Move_moving [OF False assms] show ?thesis by simp
  qed
qed

lemma calls_append:
  "calls (cs @ ds) s = (case calls cs s of None \<Rightarrow> None | Some s' \<Rightarrow> calls ds s')"
  by (induction cs arbitrary: s) (auto split: option.splits)

lemma calls_length:
  assumes "body s \<noteq> []"
  shows "\<exists>s'. calls cs s = Some s' \<and> length (body s) \<le> length (body s')"
  using assms
proof (induction cs arbitrary: s)
  case Nil
  then show ?case by simp
next
  case (Cons c cs)
  from call_length [OF Cons.prems, of c] obtain s1 where
    s1: "call c s = Some s1" "length (body s) \<le> length (body s1)" by blast
  then have "body s1 \<noteq> []" using Cons.prems by auto
  from Cons.IH [OF this] obtain s2 where
    "calls cs s1 = Some s2" "length (body s1) \<le> length (body s2)"
    by blast
  with s1 show ?case by auto
qed

text \<open>
  C10. Take any sequence of \<open>SetDirection\<close>, \<open>Grow\<close> and \<open>Move\<close> calls on a fresh snake
  and any call \<open>c\<close> in it, after the calls \<open>cs\<close> and before the calls \<open>ds\<close>. Every call
  returns; the body has at least 3 segments before \<open>c\<close>; \<open>c\<close> keeps the length or adds
  one, and keeps it unless it is a \<open>Move\<close>; the length at the end is no less than after
  \<open>c\<close>, and the body is not empty.
\<close>

theorem body_length_never_decreases:
  "\<exists>s1 s2 s3. calls cs (Snake startX startY segSize) = Some s1 \<and>
      call c s1 = Some s2 \<and>
      calls (cs @ c # ds) (Snake startX startY segSize) = Some s3 \<and>
      3 \<le> length (body s1) \<and>
      length (body s1) \<le> length (body s2) \<and> length (body s2) \<le> length (body s1) + 1 \<and>
      (c \<noteq> CallMove \<longrightarrow> length (body s2) = length (body s1)) \<and>
      length (body s2) \<le> length (body s3) \<and> body s3 \<noteq> []"
proof -
  let ?s0 = "Snake startX startY segSize"
  have l0: "length (body ?s0) = 3" by (simp add: Snake_fields)
  then have "body ?s0 \<noteq> []" by auto
  from calls_length [OF this, of cs] l0 obtain s1 where
    s1: "calls cs ?s0 = Some s1" "3 \<le> length (body s1)" by auto
  then have n1: "body s1 \<noteq> []" by auto
  from call_length [OF n1, of c] obtain s2 where
    s2: "call c s1 = Some s2" "length (body s1) \<le> length (body s2)"
        "length (body s2) \<le> length (body s1) + 1"
        "c \<noteq> CallMove \<longrightarrow> length (body s2) = length (body s1)" by blast
  then have n2: "body s2 \<noteq> []" using n1 by auto
  from calls_length [OF n2, of ds] obtain s3 where
    s3: "calls ds s2 = Some s3" "length (body s2) \<le> length (body s3)" by blast
  then have n3: "body s3 \<noteq> []" using n2 by auto
  have "calls (cs @ c # ds) ?s0 = Some s3"
    by (simp add: calls_append s1(1) s2(1) s3(1))
  with s1 s2 s3 n3 show ?thesis by blast
qed

text \<open>
  Turn up, move, ask for growth, move twice: the length is 3, 3 and then 4.
\<close>

theorem body_length_never_decreases_witness:
  "CallGrow \<noteq> CallMove \<and>
   map_option (\<lambda>s. length (body s))
     (calls [CallSetDirection UP, CallMove] (Snake 400 300 20)) = Some 3 \<and>
   map_option (\<lambda>s. length (body s))
     (calls ([CallSetDirection UP, CallMove] @ CallGrow # []) (Snake 400 300 20)) = Some 3 \<and>
   map_option (\<lambda>s. length (body s))
     (calls ([CallSetDirection UP, CallMove] @ CallGrow # [CallMove, CallMove])
        (Snake 400 300 20)) = Some 4"
  using body_length_never_decreases [of "[CallSetDirection UP, CallMove]" 400 300 20 CallGrow
      "[CallMove, CallMove]"]
  by (simp add: Move_def SetDirection_def Grow_def reversal_def Snake_fields push_front_def
      pop_back_def)

section \<open>The food\<close>

lemma find_pos_None:
  "find (\<lambda>segment. pos_x segment = pos_x p \<and> pos_y segment = pos_y p) b = None \<longleftrightarrow> (p::Position) \<notin> set b"
  unfolding Position_eq_iff by (auto simp: find_None_iff)

lemma sample_loop_unfold:
  "sample_loop b f =
     (if candidate f 0 \<notin> set b
      then Some (f\<lparr>pos := candidate f 0, rng := (\<lambda>i. rng f (Suc i))\<rparr>)
      else sample_loop b (f\<lparr>pos := candidate f 0, rng := (\<lambda>i. rng f (Suc i))\<rparr>))"
  by (subst sample_loop.simps) (simp add: Let_def find_pos_None candidate_def)

lemma candidate_shift:
  "candidate (f\<lparr>pos := p, rng := (\<lambda>i. rng f (Suc i))\<rparr>) k = candidate f (Suc k)"
  by (simp add: candidate_def)

lemma sample_loop_returns:
  "candidate f k \<notin> set b \<Longrightarrow> \<exists>f'. sample_loop b f = Some f'"
proof (induction k arbitrary: f)
  case 0
  then show ?case by (subst sample_loop_unfold) simp
next
  case (Suc k)
  let ?f1 = "f\<lparr>pos := candidate f 0, rng := (\<lambda>i. rng f (Suc i))\<rparr>"
  from Suc.prems have "candidate ?f1 k \<notin> set b" by (simp add: candidate_shift)
  from Suc.IH [OF this] show ?case by (subst sample_loop_unfold) simp
qed

lemma sample_loop_result:
  assumes "sample_loop b f = Some f'"
  shows "\<exists>k. f' = f\<lparr>pos := candidate f k, rng := (\<lambda>i. rng f (Suc k + i))\<rparr> \<and>
             candidate f k \<notin> set b \<and> (\<forall>j<k. candidate f j \<in> set b)"
proof (rule sample_loop.raw_induct
    [where P = "\<lambda>b f f'. \<exists>k. f' = f\<lparr>pos := candidate f k, rng := (\<lambda>i. rng f (Suc k + i))\<rparr> \<and>
             candidate f k \<notin> set b \<and> (\<forall>j<k. candidate f j \<in> set b)", OF _ assms])
  fix loop :: "Position list \<Rightarrow> food \<Rightarrow> food option" and b f y
  assume IH: "\<And>b f y. loop b f = Some y \<Longrightarrow>
     \<exists>k. y = f\<lparr>pos := candidate f k, rng := (\<lambda>i. rng f (Suc k + i))\<rparr> \<and>
             candidate f k \<notin> set b \<and> (\<forall>j<k. candidate f j \<in> set b)"
  assume step: "(let f1 = f\<lparr>pos := \<lparr>pos_x = fst (rng f 0) * food_segmentSize f,
                         pos_y = snd (rng f 0) * food_segmentSize f\<rparr>,
                 rng := (\<lambda>i. rng f (Suc i))\<rparr>;
          it = find (\<lambda>segment. pos_x segment = pos_x (pos f1) \<and> pos_y segment = pos_y (pos f1)) b
      in if it = None then Some f1 else loop b f1) = Some y"
  let ?f1 = "f\<lparr>pos := candidate f 0, rng := (\<lambda>i. rng f (Suc i))\<rparr>"
  show "\<exists>k. y = f\<lparr>pos := candidate f k, rng := (\<lambda>i. rng f (Suc k + i))\<rparr> \<and>
             candidate f k \<notin> set b \<and> (\<forall>j<k. candidate f j \<in> set b)"
  proof (cases "candidate f 0 \<in> set b")
    case False
    with step have "y = ?f1"
      by (simp add: Let_def find_pos_None candidate_def)
    with False show ?thesis by (intro exI [of _ 0]) simp
  next
    case True
    with step have "loop b ?f1 = Some y"
      by (simp add: Let_def find_pos_None candidate_def)
    from IH [OF this] obtain k where k:
      "y = ?f1\<lparr>pos := candidate ?f1 k, rng := (\<lambda>i. rng ?f1 (Suc k + i))\<rparr>"
      "candidate ?f1 k \<notin> set b" "\<forall>j<k. candidate ?f1 j \<in> set b"
      by blast
    have "\<forall>j<Suc k. candidate f j \<in> set b"
    proof (intro allI impI)
      fix j assume "j < Suc k"
      then show "candidate f j \<in> set b"
        using True k(3) by (cases j) (auto simp: candidate_shift)
    qed
    with k(1,2) show ?thesis
      by (intro exI [of _ "Suc k"]) (simp add: candidate_shift)
  qed
qed

lemma sdiv_nonneg: "0 \<le> a \<Longrightarrow> 0 < b \<Longrightarrow> a sdiv b = a div (b::int)"
  by (simp add: signed_divide_int_def sgn_if)

lemma dist_bound_value:
  fixes extent segSize :: c_int
  assumes "0 <s segSize" and "segSize \<le>s extent"
  shows "\<exists>b. dist_bound extent segSize = Some b \<and> sint b = sint extent div sint segSize - 1 \<and>
             0 \<le> sint b"
proof -
  from assms have s: "0 < sint segSize" and e: "sint segSize \<le> sint extent"
    by (simp_all add: word_sless_alt word_sle_eq)
  let ?q = "sint extent div sint segSize"
  have "0 < ?q" using s e by (simp add: pos_imp_zdiv_pos_iff)
  then have q1: "1 \<le> ?q" by simp
  have qs: "?q * sint segSize \<le> sint extent"
    using s by (simp add: minus_mod_eq_div_mult [symmetric])
  have "?q * 1 \<le> ?q * sint segSize"
    using s q1 by (intro mult_left_mono) simp_all
  with qs have "?q \<le> sint extent" by simp
  also have "\<dots> < 2 ^ 31" using sint_lt [of extent] by simp
  finally have q2: "?q < 2 ^ 31" .
  have ne: "segSize \<noteq> 0" "segSize \<noteq> - 1" using s by auto
  have sq: "sint (word_of_int ?q :: c_int) = ?q"
    using q1 q2 by (simp add: sint_sbintrunc' signed_take_bit_int_eq_self)
  have "sint (word_of_int ?q - 1 :: c_int) = ?q - 1"
    using q1 q2 by (simp add: sint_word_ariths sq signed_take_bit_int_eq_self)
  then show ?thesis
    using ne s e q1 by (simp add: dist_bound_def int_div_def sdiv_nonneg)
qed

lemma cell_bounds:
  fixes d extent segSize b :: c_int
  assumes "0 <s segSize" and "segSize \<le>s extent" and "dist_bound extent segSize = Some b"
    and "0 \<le>s d" and "d \<le>s b"
  shows "sint (d * segSize) = sint d * sint segSize"
    and "0 \<le> sint d" 
    and "sint d * sint segSize \<le> sint extent - sint segSize"
proof -
  from assms have s: "0 < sint segSize" and e: "sint segSize \<le> sint extent"
    and d0: "0 \<le> sint d" and db: "sint d \<le> sint b"
    by (simp_all add: word_sless_alt word_sle_eq)
  from dist_bound_value [OF assms(1,2)] assms(3)
  have b: "sint b = sint extent div sint segSize - 1" by auto
  have "sint d * sint segSize \<le> (sint extent div sint segSize - 1) * sint segSize"
    using db b s by (simp add: mult_right_mono)
  also have "\<dots> = (sint extent div sint segSize) * sint segSize - sint segSize"
    by (simp add: algebra_simps)
  also have "\<dots> \<le> sint extent - sint segSize"
    using s by (simp add: minus_mod_eq_div_mult [symmetric])
  finally show le: "sint d * sint segSize \<le> sint extent - sint segSize" .
  have "sint extent < 2 ^ 31" using sint_lt [of extent] by simp
  with le s have "sint d * sint segSize < 2 ^ 31" by linarith
  moreover have "0 \<le> sint d * sint segSize" using d0 s by simp
  ultimately show "sint (d * segSize) = sint d * sint segSize"
    by (simp add: sint_word_ariths signed_take_bit_int_eq_self)
  show "0 \<le> sint d" by (rule d0)
qed

lemma GenerateNewPosition_loop:
  assumes "0 <s food_segmentSize f" and "food_segmentSize f \<le>s boardWidth f"
    and "food_segmentSize f \<le>s boardHeight f"
  shows "GenerateNewPosition b f = sample_loop b f"
proof -
  from dist_bound_value [OF assms(1,2)] obtain bx where
    bx: "dist_bound (boardWidth f) (food_segmentSize f) = Some bx" "0 \<le> sint bx" by blast
  from dist_bound_value [OF assms(1,3)] obtain "by" where
    "by": "dist_bound (boardHeight f) (food_segmentSize f) = Some by" "0 \<le> sint by" by blast
  from bx "by" show ?thesis
    by (simp add: GenerateNewPosition_def word_sless_alt)
qed

lemma GenerateNewPosition_disjoint:
  assumes "GenerateNewPosition b f = Some f'"
  shows "pos f' \<notin> set b" and "boardWidth f' = boardWidth f" and "boardHeight f' = boardHeight f"
    and "food_segmentSize f' = food_segmentSize f"
proof -
  from assms have "sample_loop b f = Some f'"
    by (auto simp: GenerateNewPosition_def split: option.splits if_splits)
  from sample_loop_result [OF this] obtain k where
    "f' = f\<lparr>pos := candidate f k, rng := (\<lambda>i. rng f (Suc k + i))\<rparr>" "candidate f k \<notin> set b"
    by blast
  then show "pos f' \<notin> set b" and "boardWidth f' = boardWidth f"
    and "boardHeight f' = boardHeight f" and "food_segmentSize f' = food_segmentSize f"
    by simp_all
qed

text \<open>
  C6. Let the segment size be positive, the board at least one segment wide and high,
  and the draws of the generator within the bounds of the two distributions. Then
  \<open>GenerateNewPosition\<close> returns exactly when the generator draws, sooner or later, a
  cell that is not on the snake. When it returns, both coordinates of the stored food
  position are non-negative multiples of the segment size, \<open>x\<close> lies in
  \<open>[0, boardWidth - segmentSize]\<close> and \<open>y\<close> in \<open>[0, boardHeight - segmentSize]\<close>, and the
  position is none of the segments of the body that was passed in; the dimensions of the
  food are unchanged.
\<close>

theorem GenerateNewPosition_spec:
  assumes "0 <s food_segmentSize f" and "food_segmentSize f \<le>s boardWidth f"
    and "food_segmentSize f \<le>s boardHeight f" and "rng_in_range f"
  shows "(GenerateNewPosition snakeBody f \<noteq> None \<longleftrightarrow> (\<exists>k. candidate f k \<notin> set snakeBody)) \<and>
    (\<forall>f'. GenerateNewPosition snakeBody f = Some f' \<longrightarrow>
       (\<exists>kx ky. 0 \<le> kx \<and> 0 \<le> ky \<and>
          sint (pos_x (GetPosition f')) = kx * sint (food_segmentSize f) \<and>
          sint (pos_y (GetPosition f')) = ky * sint (food_segmentSize f)) \<and>
       0 \<le> sint (pos_x (GetPosition f')) \<and>
       sint (pos_x (GetPosition f')) \<le> sint (boardWidth f) - sint (food_segmentSize f) \<and>
       0 \<le> sint (pos_y (GetPosition f')) \<and>
       sint (pos_y (GetPosition f')) \<le> sint (boardHeight f) - sint (food_segmentSize f) \<and>
       GetPosition f' \<notin> set snakeBody \<and>
       boardWidth f' = boardWidth f \<and> boardHeight f' = boardHeight f \<and>
       food_segmentSize f' = food_segmentSize f)"
proof (intro conjI allI impI)
  note eq = GenerateNewPosition_loop [OF assms(1-3), of snakeBody]
  show "GenerateNewPosition snakeBody f \<noteq> None \<longleftrightarrow> (\<exists>k. candidate f k \<notin> set snakeBody)"
  proof
    assume "GenerateNewPosition snakeBody f \<noteq> None"
    then obtain f' where "sample_loop snakeBody f = Some f'" using eq by auto
    from sample_loop_result [OF this] show "\<exists>k. candidate f k \<notin> set snakeBody" by blast
  next
    assume "\<exists>k. candidate f k \<notin> set snakeBody"
    then obtain k where "candidate f k \<notin> set snakeBody" ..
    from sample_loop_returns [OF this] show "GenerateNewPosition snakeBody f \<noteq> None"
      using eq by auto
  qed
next
  fix f' assume r: "GenerateNewPosition snakeBody f = Some f'"
  then have "sample_loop snakeBody f = Some f'"
    using GenerateNewPosition_loop [OF assms(1-3), of snakeBody] by simp
  from sample_loop_result [OF this] obtain k where
    k: "f' = f\<lparr>pos := candidate f k, rng := (\<lambda>i. rng f (Suc k + i))\<rparr>" by blast
  from assms(4) obtain bx "by" where
    bx: "dist_bound (boardWidth f) (food_segmentSize f) = Some bx"
    and "by": "dist_bound (boardHeight f) (food_segmentSize f) = Some by"
    and dx: "0 \<le>s fst (rng f k)" "fst (rng f k) \<le>s bx"
    and dy: "0 \<le>s snd (rng f k)" "snd (rng f k) \<le>s by"
    unfolding rng_in_range_def by blast
  note cx = cell_bounds [OF assms(1,2) bx dx]
  note cy = cell_bounds [OF assms(1,3) "by" dy]
  from assms(1) have s: "0 < sint (food_segmentSize f)" by (simp add: word_sless_alt)
  have px: "sint (pos_x (GetPosition f')) = sint (fst (rng f k)) * sint (food_segmentSize f)"
    and py: "sint (pos_y (GetPosition f')) = sint (snd (rng f k)) * sint (food_segmentSize f)"
    using k cx(1) cy(1) by (simp_all add: GetPosition_def candidate_def)
  show "\<exists>kx ky. 0 \<le> kx \<and> 0 \<le> ky \<and>
          sint (pos_x (GetPosition f')) = kx * sint (food_segmentSize f) \<and>
          sint (pos_y (GetPosition f')) = ky * sint (food_segmentSize f)"
    using px py cx(2) cy(2) by blast
  show "0 \<le> sint (pos_x (GetPosition f'))" using px cx(2) s by simp
  show "0 \<le> sint (pos_y (GetPosition f'))" using py cy(2) s by simp
  show "sint (pos_x (GetPosition f')) \<le> sint (boardWidth f) - sint (food_segmentSize f)"
    using px cx(3) by simp
  show "sint (pos_y (GetPosition f')) \<le> sint (boardHeight f) - sint (food_segmentSize f)"
    using py cy(3) by simp
  show "GetPosition f' \<notin> set snakeBody"
    using GenerateNewPosition_disjoint(1) [OF r] by (simp add: GetPosition_def)
  show "boardWidth f' = boardWidth f" "boardHeight f' = boardHeight f"
    "food_segmentSize f' = food_segmentSize f"
    using GenerateNewPosition_disjoint [OF r] by simp_all
qed

text \<open>
  On the board of 800 by 600 with segments of 20, the first draw \<open>(18, 15)\<close> is the
  cell \<open>(360, 300)\<close> under the head of the fresh snake; the second draw \<open>(5, 7)\<close> gives
  the food position \<open>(100, 140)\<close>.
\<close>

lemma example_food_range:
  "rng_in_range food_example"
  by (simp add: rng_in_range_def Food_def dist_bound_def int_div_def INT_MIN_def
      signed_divide_int_def word_sle_eq)

theorem GenerateNewPosition_spec_witness:
  "(0::c_int) <s 20 \<and> (20::c_int) \<le>s 800 \<and> (20::c_int) \<le>s 600 \<and>
   rng_in_range food_example \<and>
   candidate food_example 0 \<in> set (body (Snake 400 300 20)) \<and>
   map_option GetPosition
     (GenerateNewPosition (body (Snake 400 300 20)) food_example)
     = Some \<lparr>pos_x = 100, pos_y = 140\<rparr>"
  using GenerateNewPosition_spec [of food_example
      "body (Snake 400 300 20)"]
    example_food_range
  by (simp add: GenerateNewPosition_def dist_bound_def int_div_def INT_MIN_def
      signed_divide_int_def word_sle_eq word_sless_alt sample_loop_unfold candidate_def
      Food_def Snake_fields GetPosition_def)

section \<open>The game\<close>

lemma uint_eq_sint:
  assumes "0 \<le> sint (w::c_int)"
  shows "uint w = sint w"
proof (cases "uint w < 2 ^ 31")
  case True
  have "(0::int) \<le> 2 ^ 31" by simp
  then have "- (2 ^ 31) \<le> uint w" using uint_ge_0 [of w] by linarith
  from signed_take_bit_int_eq_self [OF this True] show ?thesis
    by (simp add: sint_uint)
next
  case False
  then have "signed_take_bit 31 (uint w) \<le> uint w - 2 ^ Suc 31"
    by (intro signed_take_bit_int_less_eq) simp
  moreover have "uint w < 2 ^ 32" using uint_lt2p [of w] by simp
  moreover have "sint w = signed_take_bit 31 (uint w)" by (simp add: sint_uint)
  ultimately have "sint w < 0" by (simp del: signed_take_bit_negative_iff)
  with assms show ?thesis by simp
qed

lemma hits_wall_iff:
  assumes "0 \<le>s segmentSize (PlayerSnake g)"
  shows "hits_wall g \<longleftrightarrow>
           sint (pos_x (GetHeadPosition (PlayerSnake g))) < 0 \<or>
           sint (pos_x (GetHeadPosition (PlayerSnake g))) + sint (segmentSize (PlayerSnake g))
             > uint (Width g) \<or>
           sint (pos_y (GetHeadPosition (PlayerSnake g))) < 0 \<or>
           sint (pos_y (GetHeadPosition (PlayerSnake g))) + sint (segmentSize (PlayerSnake g))
             > uint (Height g)"
proof -
  let ?sz = "segmentSize (PlayerSnake g)"
  from assms have sz: "0 \<le> sint ?sz" by (simp add: word_sle_eq)
  have sum: "uint (c + ?sz) = sint c + sint ?sz" if "0 \<le> sint c" for c :: c_int
  proof -
    have "uint c < 2 ^ 31" "uint ?sz < 2 ^ 31"
      using that sz sint_lt [of c] sint_lt [of ?sz] by (simp_all add: uint_eq_sint)
    then have "uint c + uint ?sz < 2 ^ LENGTH(32)" by simp
    then have "uint (c + ?sz) = uint c + uint ?sz" by (rule uint_add_lem [THEN iffD1])
    with that sz show ?thesis by (simp add: uint_eq_sint)
  qed
  have one: "(c <s 0 \<or> w < c + ?sz) \<longleftrightarrow> (sint c < 0 \<or> uint w < sint c + sint ?sz)"
    for c w :: c_int
  proof (cases "sint c < 0")
    case True
    then show ?thesis by (simp add: word_sless_alt)
  next
    case False
    then have "0 \<le> sint c" by simp
    from sum [OF this] False show ?thesis by (simp add: word_sless_alt word_less_def)
  qed
  show ?thesis
    using one [of "pos_x (GetHeadPosition (PlayerSnake g))" "Width g"]
          one [of "pos_y (GetHeadPosition (PlayerSnake g))" "Height g"]
    by (auto simp: hits_wall_def Let_def GetSegmentSize_def)
qed

lemma Update_inactive: "State g \<noteq> GAME_ACTIVE \<Longrightarrow> Update g = Some g"
  by (simp add: Update_def)

lemma Move_segmentSize: "Move s = Some s' \<Longrightarrow> segmentSize s' = segmentSize s"
  by (auto simp: Move_def Let_def split: if_splits list.splits)

lemma head_eq_iff:
  "pos_x (GetHeadPosition s) = pos_x (GetPosition f) \<and> pos_y (GetHeadPosition s) = pos_y (GetPosition f)
   \<longleftrightarrow> GetHeadPosition s = GetPosition f"
  by (rule Position_eq_iff)

lemma eat_food_hit:
  assumes "GetHeadPosition (PlayerSnake g) = GetPosition (GameFood g)"
  shows "eat_food g =
           (case GenerateNewPosition (body (PlayerSnake g)) (GameFood g) of
              None \<Rightarrow> None
            | Some f \<Rightarrow> Some (g\<lparr>PlayerSnake := Grow (PlayerSnake g), GameFood := f\<rparr>))"
  using assms by (simp add: eat_food_def head_eq_iff GetBody_def Grow_def split: option.splits)

lemma eat_food_miss:
  assumes "GetHeadPosition (PlayerSnake g) \<noteq> GetPosition (GameFood g)"
  shows "eat_food g = Some g"
  using assms by (simp add: eat_food_def head_eq_iff)

lemma hits_wall_State [simp]: "hits_wall (g\<lparr>State := st\<rparr>) = hits_wall g"
  by (simp add: hits_wall_def)

lemma collision_checks_fields:
  "PlayerSnake (collision_checks g) = PlayerSnake g"
  "GameFood (collision_checks g) = GameFood g"
  "Width (collision_checks g) = Width g"
  "Height (collision_checks g) = Height g"
  "Keys (collision_checks g) = Keys g"
  "State (collision_checks g) =
     (if CheckSelfCollision (PlayerSnake g) \<or> hits_wall g then GAME_OVER else State g)"
  by (simp_all add: collision_checks_def Let_def)

lemma Update_active:
  assumes "State g = GAME_ACTIVE"
  shows "Update g =
           (case Move (PlayerSnake g) of
              None \<Rightarrow> None
            | Some s \<Rightarrow>
                (case eat_food (g\<lparr>PlayerSnake := s\<rparr>) of
                   None \<Rightarrow> None
                 | Some g2 \<Rightarrow> Some (collision_checks g2)))"
  using assms by (simp add: Update_def)

lemma GetHeadPosition_Grow [simp]: "GetHeadPosition (Grow s) = GetHeadPosition s"
  by (simp add: GetHeadPosition_def Grow_def)

lemma CheckSelfCollision_Grow [simp]: "CheckSelfCollision (Grow s) = CheckSelfCollision s"
  by (simp add: CheckSelfCollision_def Grow_def)

lemma GenerateNewPosition_returns_iff:
  assumes "0 <s food_segmentSize f" and "food_segmentSize f \<le>s boardWidth f"
    and "food_segmentSize f \<le>s boardHeight f"
  shows "GenerateNewPosition b f \<noteq> None \<longleftrightarrow> (\<exists>k. candidate f k \<notin> set b)"
proof
  assume "GenerateNewPosition b f \<noteq> None"
  then obtain f' where "sample_loop b f = Some f'"
    using GenerateNewPosition_loop [OF assms, of b] by auto
  from sample_loop_result [OF this] show "\<exists>k. candidate f k \<notin> set b" by blast
next
  assume "\<exists>k. candidate f k \<notin> set b"
  then obtain k where "candidate f k \<notin> set b" ..
  from sample_loop_returns [OF this] show "GenerateNewPosition b f \<noteq> None"
    using GenerateNewPosition_loop [OF assms, of b] by auto
qed

lemma ProcessInput_over:
  "State g = GAME_OVER \<Longrightarrow>
   ProcessInput e g = (if Keys g GLFW_KEY_R then ResetGame e g else Some g)"
  by (simp add: ProcessInput_def)

lemma ResetGame_result:
  assumes "ResetGame e g = Some g'"
  shows "State g' = GAME_ACTIVE"
    and "PlayerSnake g' = Snake (Width g div 2) (Height g div 2) 20"
    and "GenerateNewPosition (body (Snake (Width g div 2) (Height g div 2) 20))
           (Food (fresh_seed e) (fresh_pos e) (Width g) (Height g) 20) = Some (GameFood g')"
    and "Width g' = Width g" and "Height g' = Height g" and "Keys g' = Keys g"
  using assms
  by (auto simp: ResetGame_def Let_def GetBody_def GetSegmentSize_def Snake_fields
      split: option.splits)

lemma ResetGame_returns:
  "ResetGame e g \<noteq> None \<longleftrightarrow>
     GenerateNewPosition (body (Snake (Width g div 2) (Height g div 2) 20))
           (Food (fresh_seed e) (fresh_pos e) (Width g) (Height g) 20) \<noteq> None"
  by (auto simp: ResetGame_def Let_def GetBody_def GetSegmentSize_def Snake_fields
      split: option.splits)

lemma key_callback_fields:
  "State (key_callback key action g) = State g"
  "PlayerSnake (key_callback key action g) = PlayerSnake g"
  "GameFood (key_callback key action g) = GameFood g"
  "Width (key_callback key action g) = Width g"
  "Height (key_callback key action g) = Height g"
  by (simp_all add: key_callback_def)

lemma key_callback_restart:
  "Keys (key_callback key action g) GLFW_KEY_R \<longleftrightarrow>
     (if key = int GLFW_KEY_R \<and> action = GLFW_PRESS then True
      else if key = int GLFW_KEY_R \<and> action = GLFW_RELEASE then False
      else Keys g GLFW_KEY_R)"
  by (auto simp: key_callback_def GLFW_KEY_R_def)

lemma game_steps_over:
  assumes "State g = GAME_OVER" and "\<not> Keys g GLFW_KEY_R"
    and "CallKey (int GLFW_KEY_R) GLFW_PRESS \<notin> set cs"
  shows "\<exists>g'. game_steps cs g = Some g' \<and> State g' = GAME_OVER \<and>
              PlayerSnake g' = PlayerSnake g \<and> GameFood g' = GameFood g \<and>
              \<not> Keys g' GLFW_KEY_R"
  using assms
proof (induction cs arbitrary: g)
  case Nil
  then show ?case by simp
next
  case (Cons c cs)
  have "\<exists>g1. game_step c g = Some g1 \<and> State g1 = GAME_OVER \<and>
              PlayerSnake g1 = PlayerSnake g \<and> GameFood g1 = GameFood g \<and>
              \<not> Keys g1 GLFW_KEY_R"
  proof (cases c)
    case (CallKey key action)
    with Cons.prems show ?thesis
      by (auto simp: key_callback_fields key_callback_restart)
  next
    case (CallProcessInput e)
    with Cons.prems show ?thesis by (simp add: ProcessInput_over)
  next
    case CallUpdate
    with Cons.prems show ?thesis by (simp add: Update_inactive)
  qed
  then obtain g1 where g1: "game_step c g = Some g1" "State g1 = GAME_OVER"
    "PlayerSnake g1 = PlayerSnake g" "GameFood g1 = GameFood g" "\<not> Keys g1 GLFW_KEY_R"
    by blast
  from Cons.prems have "CallKey (int GLFW_KEY_R) GLFW_PRESS \<notin> set cs" by simp
  from Cons.IH [OF g1(2) g1(5) this] g1 show ?case by auto
qed

lemma leave_over:
  assumes "State g = GAME_OVER" and "game_step c g = Some g'" and "State g' \<noteq> GAME_OVER"
  shows "(\<exists>e. c = CallProcessInput e \<and> g' \<in> set_option (ResetGame e g)) \<and> Keys g GLFW_KEY_R \<and>
         State g' = GAME_ACTIVE"
proof (cases c)
  case (CallKey key action)
  with assms show ?thesis by (auto simp: key_callback_fields)
next
  case (CallProcessInput e)
  with assms have r: "Keys g GLFW_KEY_R" "ResetGame e g = Some g'"
    by (auto simp: ProcessInput_over split: if_splits)
  with CallProcessInput ResetGame_result(1) [OF r(2)] show ?thesis by simp
next
  case CallUpdate
  with assms show ?thesis by (simp add: Update_inactive)
qed

lemmas eval_defs = Update_def Move_def eat_food_def collision_checks_def hits_wall_def
  CheckSelfCollision_def collision_from.simps GetHeadPosition_def GetPosition_def GetBody_def
  GetSegmentSize_def Grow_def push_front_def pop_back_def Let_def word_sless_alt word_sle_eq
  GenerateNewPosition_def dist_bound_def int_div_def INT_MIN_def signed_divide_int_def
  sample_loop_unfold candidate_def

subsection \<open>Update\<close>

text \<open>
  C2. \<open>Update\<close> returns the game as it is whenever the state is not \<open>GAME_ACTIVE\<close>. From
  an active game whose snake has a segment size that is not negative, a call that returns
  has done this, in this order: the snake has moved; if the head then was at the food
  position the snake has been told to grow and the food has a new position, generated
  against the body after the move, and otherwise snake and food are as the move left
  them; the state is \<open>GAME_OVER\<close> exactly when the head is on another segment or when
  \<open>head.x < 0\<close>, \<open>head.x + segmentSize > Width\<close>, \<open>head.y < 0\<close> or
  \<open>head.y + segmentSize > Height\<close>, and is still \<open>GAME_ACTIVE\<close> otherwise. The call
  returns whenever the move is defined and the food, if it is eaten, finds a new position.
\<close>

theorem Update_spec:
  "(State g \<noteq> GAME_ACTIVE \<longrightarrow> Update g = Some g) \<and>
   (State g = GAME_ACTIVE \<and> 0 \<le>s segmentSize (PlayerSnake g) \<and> Update g = Some g' \<longrightarrow>
      (\<exists>s1. Move (PlayerSnake g) = Some s1 \<and>
         (GetHeadPosition s1 = GetPosition (GameFood g) \<longrightarrow>
            PlayerSnake g' = Grow s1 \<and>
            GenerateNewPosition (body s1) (GameFood g) = Some (GameFood g')) \<and>
         (GetHeadPosition s1 \<noteq> GetPosition (GameFood g) \<longrightarrow>
            PlayerSnake g' = s1 \<and> GameFood g' = GameFood g)) \<and>
      (State g' = GAME_OVER \<longleftrightarrow>
         CheckSelfCollision (PlayerSnake g') \<or>
         sint (pos_x (GetHeadPosition (PlayerSnake g'))) < 0 \<or>
         uint (Width g) < sint (pos_x (GetHeadPosition (PlayerSnake g'))) +
                          sint (segmentSize (PlayerSnake g')) \<or>
         sint (pos_y (GetHeadPosition (PlayerSnake g'))) < 0 \<or>
         uint (Height g) < sint (pos_y (GetHeadPosition (PlayerSnake g'))) +
                           sint (segmentSize (PlayerSnake g'))) \<and>
      (State g' \<noteq> GAME_OVER \<longrightarrow> State g' = GAME_ACTIVE) \<and>
      Width g' = Width g \<and> Height g' = Height g \<and> Keys g' = Keys g) \<and>
   (State g = GAME_ACTIVE \<and> Move (PlayerSnake g) = Some s \<and>
    (GetHeadPosition s = GetPosition (GameFood g) \<longrightarrow>
       GenerateNewPosition (body s) (GameFood g) \<noteq> None) \<longrightarrow> Update g \<noteq> None)"
proof (intro conjI impI)
  assume "State g \<noteq> GAME_ACTIVE"
  then show "Update g = Some g" by (rule Update_inactive)
next
  assume a: "State g = GAME_ACTIVE \<and> Move (PlayerSnake g) = Some s \<and>
    (GetHeadPosition s = GetPosition (GameFood g) \<longrightarrow>
       GenerateNewPosition (body s) (GameFood g) \<noteq> None)"
  show "Update g \<noteq> None"
  proof (cases "GetHeadPosition s = GetPosition (GameFood g)")
    case True
    with a obtain f where "GenerateNewPosition (body s) (GameFood g) = Some f" by auto
    with a True show ?thesis
      by (simp add: Update_active eat_food_hit)
  next
    case False
    with a show ?thesis by (simp add: Update_active eat_food_miss)
  qed
next
  assume a: "State g = GAME_ACTIVE \<and> 0 \<le>s segmentSize (PlayerSnake g) \<and> Update g = Some g'"
  then obtain s1 g1 where s1: "Move (PlayerSnake g) = Some s1"
    and g1: "eat_food (g\<lparr>PlayerSnake := s1\<rparr>) = Some g1"
    and g': "g' = collision_checks g1"
    by (auto simp: Update_active split: option.splits)
  have sz1: "segmentSize s1 = segmentSize (PlayerSnake g)"
    using s1 by (rule Move_segmentSize)
  have fields: "Width g1 = Width g" "Height g1 = Height g" "Keys g1 = Keys g"
    "State g1 = GAME_ACTIVE" "segmentSize (PlayerSnake g1) = segmentSize (PlayerSnake g)"
    and food: "GetHeadPosition s1 = GetPosition (GameFood g) \<longrightarrow>
            PlayerSnake g1 = Grow s1 \<and>
            GenerateNewPosition (body s1) (GameFood g) = Some (GameFood g1)"
    and nofood: "GetHeadPosition s1 \<noteq> GetPosition (GameFood g) \<longrightarrow>
            PlayerSnake g1 = s1 \<and> GameFood g1 = GameFood g"
  proof -
    show "Width g1 = Width g" "Height g1 = Height g" "Keys g1 = Keys g"
      "State g1 = GAME_ACTIVE" "segmentSize (PlayerSnake g1) = segmentSize (PlayerSnake g)"
      "GetHeadPosition s1 = GetPosition (GameFood g) \<longrightarrow>
            PlayerSnake g1 = Grow s1 \<and>
            GenerateNewPosition (body s1) (GameFood g) = Some (GameFood g1)"
      "GetHeadPosition s1 \<noteq> GetPosition (GameFood g) \<longrightarrow>
            PlayerSnake g1 = s1 \<and> GameFood g1 = GameFood g"
      using g1 a sz1
      by (cases "GetHeadPosition s1 = GetPosition (GameFood g)";
          auto simp: eat_food_hit eat_food_miss Grow_def split: option.splits)+
  qed
  from a fields have "0 \<le>s segmentSize (PlayerSnake g1)" by simp
  note wall = hits_wall_iff [OF this]
  show "\<exists>s1. Move (PlayerSnake g) = Some s1 \<and>
         (GetHeadPosition s1 = GetPosition (GameFood g) \<longrightarrow>
            PlayerSnake g' = Grow s1 \<and>
            GenerateNewPosition (body s1) (GameFood g) = Some (GameFood g')) \<and>
         (GetHeadPosition s1 \<noteq> GetPosition (GameFood g) \<longrightarrow>
            PlayerSnake g' = s1 \<and> GameFood g' = GameFood g)"
    using s1 food nofood by (simp add: g' collision_checks_fields)
  show "State g' = GAME_OVER \<longleftrightarrow>
         CheckSelfCollision (PlayerSnake g') \<or>
         sint (pos_x (GetHeadPosition (PlayerSnake g'))) < 0 \<or>
         uint (Width g) < sint (pos_x (GetHeadPosition (PlayerSnake g'))) +
                          sint (segmentSize (PlayerSnake g')) \<or>
         sint (pos_y (GetHeadPosition (PlayerSnake g'))) < 0 \<or>
         uint (Height g) < sint (pos_y (GetHeadPosition (PlayerSnake g'))) +
                           sint (segmentSize (PlayerSnake g'))"
    using wall fields by (simp add: g' collision_checks_fields)
  show "State g' = GAME_ACTIVE" if "State g' \<noteq> GAME_OVER"
    using that fields by (simp add: g' collision_checks_fields split: if_splits)
  show "Width g' = Width g" "Height g' = Height g" "Keys g' = Keys g"
    using fields by (simp_all add: g' collision_checks_fields)
qed

text \<open>
  A snake with its head at \<open>x = 0\<close> that heads left: the update moves the head to
  \<open>x = -20\<close> and ends the game; the next update changes nothing.
\<close>

theorem Update_spec_witness:
  "State game_at_left_wall = GAME_ACTIVE \<and>
   0 \<le>s segmentSize (PlayerSnake game_at_left_wall) \<and>
   Update game_at_left_wall = Some game_over_at_wall \<and>
   sint (pos_x (GetHeadPosition (PlayerSnake game_over_at_wall))) = - 20 \<and>
   State game_over_at_wall = GAME_OVER \<and>
   Update game_over_at_wall = Some game_over_at_wall"
  using Update_spec [of game_at_left_wall game_over_at_wall "PlayerSnake game_over_at_wall"]
    Update_spec [of game_over_at_wall game_over_at_wall "PlayerSnake game_over_at_wall"]
  by (simp add: eval_defs)

text \<open>
  C5, as amended. Take an active game in which the head of the snake, after the move of
  this update, is at the food position. Then the update returns exactly when the food
  generation does, and when it returns the body is as the move left it, \<open>growNextMove\<close>
  is set, so that the next move that moves the snake makes the body one segment longer,
  and the new food position is none of the segments of the body.
\<close>

theorem Update_eats_food:
  "State g = GAME_ACTIVE \<and> Move (PlayerSnake g) = Some s1 \<and>
   GetHeadPosition s1 = GetPosition (GameFood g) \<longrightarrow>
     (Update g \<noteq> None \<longleftrightarrow> GenerateNewPosition (body s1) (GameFood g) \<noteq> None) \<and>
     (\<forall>g'. Update g = Some g' \<longrightarrow>
        body (PlayerSnake g') = body s1 \<and>
        growNextMove (PlayerSnake g') \<and>
        GetPosition (GameFood g') \<notin> set (body (PlayerSnake g')) \<and>
        (currentDirection (PlayerSnake g') \<noteq> STOPPED \<and> body (PlayerSnake g') \<noteq> [] \<longrightarrow>
           (\<exists>s2. Move (PlayerSnake g') = Some s2 \<and>
                 length (body s2) = length (body (PlayerSnake g')) + 1)))"
proof (intro impI)
  assume a: "State g = GAME_ACTIVE \<and> Move (PlayerSnake g) = Some s1 \<and>
   GetHeadPosition s1 = GetPosition (GameFood g)"
  then have u: "Update g =
      (case GenerateNewPosition (body s1) (GameFood g) of
         None \<Rightarrow> None
       | Some f \<Rightarrow> Some (collision_checks (g\<lparr>PlayerSnake := Grow s1, GameFood := f\<rparr>)))"
    by (simp add: Update_active eat_food_hit split: option.splits)
  have ret: "Update g \<noteq> None \<longleftrightarrow> GenerateNewPosition (body s1) (GameFood g) \<noteq> None"
    by (simp add: u split: option.splits)
  have res: "body (PlayerSnake g') = body s1 \<and>
        growNextMove (PlayerSnake g') \<and>
        GetPosition (GameFood g') \<notin> set (body (PlayerSnake g')) \<and>
        (currentDirection (PlayerSnake g') \<noteq> STOPPED \<and> body (PlayerSnake g') \<noteq> [] \<longrightarrow>
           (\<exists>s2. Move (PlayerSnake g') = Some s2 \<and>
                 length (body s2) = length (body (PlayerSnake g')) + 1))"
    if g': "Update g = Some g'" for g'
  proof -
    from g' u obtain f where f: "GenerateNewPosition (body s1) (GameFood g) = Some f"
      and eq: "g' = collision_checks (g\<lparr>PlayerSnake := Grow s1, GameFood := f\<rparr>)"
      by (auto split: option.splits)
    have snake: "PlayerSnake g' = Grow s1" and food: "GameFood g' = f"
      by (simp_all add: eq collision_checks_fields)
    have "pos f \<notin> set (body s1)" using f by (rule GenerateNewPosition_disjoint(1))
    moreover have "\<exists>s2. Move (Grow s1) = Some s2 \<and> length (body s2) = length (body s1) + 1"
      if "currentDirection s1 \<noteq> STOPPED" "body s1 \<noteq> []"
      using Move_moving [of "Grow s1"] that by (simp add: Grow_def)
    ultimately show ?thesis
      by (simp add: snake food GetPosition_def) (simp add: Grow_def)
  qed
  from ret res show "(Update g \<noteq> None \<longleftrightarrow> GenerateNewPosition (body s1) (GameFood g) \<noteq> None) \<and>
     (\<forall>g'. Update g = Some g' \<longrightarrow>
        body (PlayerSnake g') = body s1 \<and>
        growNextMove (PlayerSnake g') \<and>
        GetPosition (GameFood g') \<notin> set (body (PlayerSnake g')) \<and>
        (currentDirection (PlayerSnake g') \<noteq> STOPPED \<and> body (PlayerSnake g') \<noteq> [] \<longrightarrow>
           (\<exists>s2. Move (PlayerSnake g') = Some s2 \<and>
                 length (body s2) = length (body (PlayerSnake g')) + 1)))"
    by blast
qed

text \<open>
  A snake heading right with its head at \<open>(380, 300)\<close> and the food at \<open>(400, 300)\<close>:
  the update moves the head onto the food, keeps three segments, sets the flag, and the
  food, whose first draw is under the head, goes to \<open>(100, 140)\<close>.
\<close>

theorem Update_eats_food_witness:
  "State game_before_food = GAME_ACTIVE \<and>
   Move (PlayerSnake game_before_food) = Some snake_on_food \<and>
   GetHeadPosition snake_on_food = GetPosition (GameFood game_before_food) \<and>
   map_option (\<lambda>g. body (PlayerSnake g)) (Update game_before_food) = Some (body snake_on_food) \<and>
   map_option (\<lambda>g. growNextMove (PlayerSnake g)) (Update game_before_food) = Some True \<and>
   map_option (\<lambda>g. GetPosition (GameFood g)) (Update game_before_food) = Some \<lparr>pos_x = 100, pos_y = 140\<rparr>"
  using Update_eats_food [of game_before_food snake_on_food]
  by (simp add: eval_defs)

text \<open>
  The claim as stated fails. With the food under the head before the update, the update
  first moves the head off the food: the body keeps its three segments, and the food
  stays at \<open>(400, 300)\<close>, which is now the second segment of the snake.
\<close>

theorem Update_grows_at_once_counterexample:
  "State game_food_under_head = GAME_ACTIVE \<and>
   GetPosition (GameFood game_food_under_head) = GetHeadPosition (PlayerSnake game_food_under_head) \<and>
   length (body (PlayerSnake game_food_under_head)) = 3 \<and>
   map_option (\<lambda>g. body (PlayerSnake g)) (Update game_food_under_head) =
     Some [\<lparr>pos_x = 420, pos_y = 300\<rparr>, \<lparr>pos_x = 400, pos_y = 300\<rparr>, \<lparr>pos_x = 380, pos_y = 300\<rparr>] \<and>
   map_option (\<lambda>g. length (body (PlayerSnake g))) (Update game_food_under_head) = Some 3 \<and>
   map_option (\<lambda>g. GetPosition (GameFood g)) (Update game_food_under_head) = Some \<lparr>pos_x = 400, pos_y = 300\<rparr> \<and>
   map_option (\<lambda>g. GetPosition (GameFood g) \<in> set (body (PlayerSnake g))) (Update game_food_under_head) = Some True"
  by (simp add: eval_defs)

subsection \<open>Game over and restart\<close>

text \<open>
  C9. In the state \<open>GAME_OVER\<close>: \<open>Update\<close> changes nothing; \<open>ProcessInput\<close> changes
  nothing while the restart key is up, and is \<open>ResetGame\<close> while it is down.
  \<open>ResetGame\<close> does what \<open>Init\<close> does: when it returns, the state is \<open>GAME_ACTIVE\<close>, the
  snake is the one that \<open>Snake(Width / 2, Height / 2)\<close> builds, of three segments, the
  food is a fresh one whose position was generated against that body and is on none of
  its segments, and the dimensions and the keys are as before; on a board of at least
  one segment each way it returns exactly when the fresh generator draws a free cell.
  A call that leaves \<open>GAME_OVER\<close> is a \<open>ProcessInput\<close> with the restart key down, and it
  leads to \<open>GAME_ACTIVE\<close>. So any sequence of key events, \<open>ProcessInput\<close> and \<open>Update\<close>
  calls in which the restart key is never pressed stays in \<open>GAME_OVER\<close> with the same
  snake and food.
\<close>

theorem game_over_spec:
  "State g = GAME_OVER \<longrightarrow>
     Update g = Some g \<and>
     (\<not> Keys g GLFW_KEY_R \<longrightarrow> ProcessInput e g = Some g) \<and>
     (Keys g GLFW_KEY_R \<longrightarrow> ProcessInput e g = ResetGame e g) \<and>
     ResetGame e g = Init e g \<and>
     (\<forall>g'. ResetGame e g = Some g' \<longrightarrow>
        State g' = GAME_ACTIVE \<and>
        PlayerSnake g' = Snake (Width g div 2) (Height g div 2) 20 \<and>
        length (body (PlayerSnake g')) = 3 \<and>
        GenerateNewPosition (body (Snake (Width g div 2) (Height g div 2) 20))
          (Food (fresh_seed e) (fresh_pos e) (Width g) (Height g) 20) = Some (GameFood g') \<and>
        GetPosition (GameFood g') \<notin> set (body (PlayerSnake g')) \<and>
        Width g' = Width g \<and> Height g' = Height g \<and> Keys g' = Keys g) \<and>
     (20 \<le>s Width g \<and> 20 \<le>s Height g \<longrightarrow>
        (ResetGame e g \<noteq> None \<longleftrightarrow>
           (\<exists>k. candidate (Food (fresh_seed e) (fresh_pos e) (Width g) (Height g) 20) k
                  \<notin> set (body (Snake (Width g div 2) (Height g div 2) 20))))) \<and>
     (\<forall>c g'. game_step c g = Some g' \<and> State g' \<noteq> GAME_OVER \<longrightarrow>
        (\<exists>e'. c = CallProcessInput e' \<and> ResetGame e' g = Some g') \<and>
        Keys g GLFW_KEY_R \<and> State g' = GAME_ACTIVE) \<and>
     (\<not> Keys g GLFW_KEY_R \<and> CallKey (int GLFW_KEY_R) GLFW_PRESS \<notin> set cs \<longrightarrow>
        (\<exists>g'. game_steps cs g = Some g' \<and> State g' = GAME_OVER \<and>
              PlayerSnake g' = PlayerSnake g \<and> GameFood g' = GameFood g))"
proof (intro impI conjI allI)
  assume over: "State g = GAME_OVER"
  show "Update g = Some g" using over by (simp add: Update_inactive)
  show "ProcessInput e g = Some g" if "\<not> Keys g GLFW_KEY_R"
    using over that by (simp add: ProcessInput_over)
  show "ProcessInput e g = ResetGame e g" if "Keys g GLFW_KEY_R"
    using over that by (simp add: ProcessInput_over)
  show "ResetGame e g = Init e g" by (simp add: ResetGame_def Init_def)
  show "ResetGame e g \<noteq> None \<longleftrightarrow>
           (\<exists>k. candidate (Food (fresh_seed e) (fresh_pos e) (Width g) (Height g) 20) k
                  \<notin> set (body (Snake (Width g div 2) (Height g div 2) 20)))"
    if "20 \<le>s Width g \<and> 20 \<le>s Height g"
  proof -
    have "(0::c_int) <s 20" by (simp add: word_sless_alt)
    with that show ?thesis
      unfolding ResetGame_returns
      by (intro GenerateNewPosition_returns_iff) (simp_all add: Food_def)
  qed
  show "\<exists>g'. game_steps cs g = Some g' \<and> State g' = GAME_OVER \<and>
              PlayerSnake g' = PlayerSnake g \<and> GameFood g' = GameFood g"
    if "\<not> Keys g GLFW_KEY_R \<and> CallKey (int GLFW_KEY_R) GLFW_PRESS \<notin> set cs"
    using game_steps_over [of g cs] over that by blast
next
  fix g' assume r: "ResetGame e g = Some g'"
  note res = ResetGame_result [OF r]
  show "State g' = GAME_ACTIVE" by (rule res(1))
  show "PlayerSnake g' = Snake (Width g div 2) (Height g div 2) 20" by (rule res(2))
  show "length (body (PlayerSnake g')) = 3" by (simp add: res(2) Snake_fields)
  show "GenerateNewPosition (body (Snake (Width g div 2) (Height g div 2) 20))
          (Food (fresh_seed e) (fresh_pos e) (Width g) (Height g) 20) = Some (GameFood g')"
    by (rule res(3))
  show "GetPosition (GameFood g') \<notin> set (body (PlayerSnake g'))"
    using GenerateNewPosition_disjoint(1) [OF res(3)] by (simp add: res(2) GetPosition_def)
  show "Width g' = Width g" "Height g' = Height g" "Keys g' = Keys g"
    by (rule res)+
next
  fix c g'
  assume over: "State g = GAME_OVER"
    and step: "game_step c g = Some g' \<and> State g' \<noteq> GAME_OVER"
  from leave_over [OF over] step
  show "\<exists>e'. c = CallProcessInput e' \<and> ResetGame e' g = Some g'"
    and "Keys g GLFW_KEY_R" and "State g' = GAME_ACTIVE"
    by auto
qed

text \<open>
  The game that ended at the left wall: updates and inputs without the restart key leave
  it as it is; with the restart key down \<open>ProcessInput\<close> gives an active game with the
  fresh snake and the food at \<open>(100, 140)\<close>.
\<close>

theorem game_over_spec_witness:
  "State game_over_at_wall = GAME_OVER \<and> \<not> Keys game_over_at_wall GLFW_KEY_R \<and>
   Update game_over_at_wall = Some game_over_at_wall \<and>
   ProcessInput fresh_example game_over_at_wall = Some game_over_at_wall \<and>
   game_steps [CallUpdate, CallKey 87 GLFW_PRESS, CallProcessInput fresh_example, CallUpdate] game_over_at_wall
     = Some (game_over_at_wall\<lparr>Keys := (\<lambda>k. k = 87)\<rparr>) \<and>
   Keys game_over_restart_key GLFW_KEY_R \<and>
   map_option State (ProcessInput fresh_example game_over_restart_key) = Some GAME_ACTIVE \<and>
   map_option (\<lambda>g. body (PlayerSnake g)) (ProcessInput fresh_example game_over_restart_key) =
     Some [\<lparr>pos_x = 360, pos_y = 300\<rparr>, \<lparr>pos_x = 380, pos_y = 300\<rparr>, \<lparr>pos_x = 400, pos_y = 300\<rparr>] \<and>
   map_option (\<lambda>g. GetPosition (GameFood g)) (ProcessInput fresh_example game_over_restart_key) =
     Some \<lparr>pos_x = 100, pos_y = 140\<rparr>"
proof -
  have over: "State game_over_at_wall = GAME_OVER" and over': "State game_over_restart_key = GAME_OVER"
    by simp_all
  have quiet: "Update game_over_at_wall = Some game_over_at_wall"
    using game_over_spec [of game_over_at_wall fresh_example "[]", THEN mp, OF over] by (rule conjunct1)
  have restart: "ProcessInput fresh_example game_over_restart_key = ResetGame fresh_example game_over_restart_key"
    using game_over_spec [of game_over_restart_key fresh_example "[]", THEN mp, OF over']
    by (simp add: GLFW_KEY_R_def)
  have reset: "ResetGame fresh_example game_over_restart_key = Some
     (\<lparr>State = GAME_ACTIVE, Keys = (\<lambda>k. k = 82), Width = 800, Height = 600,
        PlayerSnake = Snake 400 300 20,
        GameFood = \<lparr>pos = \<lparr>pos_x = 100, pos_y = 140\<rparr>, boardWidth = 800, boardHeight = 600,
                    food_segmentSize = 20, rng = (\<lambda>i. (5, 7))\<rparr>\<rparr>)"
    by (simp add: ResetGame_def Food_def Snake_fields GetBody_def GetSegmentSize_def
       GenerateNewPosition_def dist_bound_def int_div_def INT_MIN_def signed_divide_int_def
       word_sless_alt sample_loop_unfold candidate_def)
  show ?thesis
    using quiet
    by (simp add: restart reset Snake_fields GetPosition_def Update_def ProcessInput_def
        key_callback_def GLFW_KEY_R_def fun_eq_iff)
qed

end
